theory Spec2Isabelle
  imports Complex_Main "HOL-Library.Signed_Division"
begin

section \<open>Results of a creator call\<close>

text \<open>
  Every creator of the repository either returns a handle, returns \<^verbatim>\<open>null\<close> after
  writing one line to the console, or lets an exception of the rendering library escape.
  The console line is the only thing that tells the \<^verbatim>\<open>null\<close> returns apart, so it is
  kept with the \<^verbatim>\<open>null\<close>.
\<close>

datatype console =
    MapMissing          \<comment> \<open>console.error: the map instance does not exist\<close>
  | EffectExists        \<comment> \<open>console.log: an effect with this id already exists\<close>
  | NeedTwoPoints       \<comment> \<open>console.error: a fence needs at least two points\<close>
  | NeedValidPosition   \<comment> \<open>console.error: a cone needs a position [lng, lat, height]\<close>
  | CreationFailed      \<comment> \<open>console.error in a catch block: creation failed\<close>

datatype 'a result = Null console | Returned 'a | Thrown

section \<open>Numbers and option defaults of JavaScript\<close>

text \<open>
  Wall-clock readings (\<^verbatim>\<open>new Date().getTime()\<close>) are whole milliseconds, modelled as
  \<^typ>\<open>int\<close>; every other number is a \<^typ>\<open>real\<close>, so rounding of doubles is not part
  of the model. \<^verbatim>\<open>undefined\<close> is \<^const>\<open>None\<close>.
\<close>

text \<open>\<^verbatim>\<open>a % b\<close> on integers: the remainder takes the sign of the dividend, and
  \<^verbatim>\<open>a % 0\<close> is NaN (\<^const>\<open>None\<close>).\<close>

definition js_rem :: "int \<Rightarrow> int \<Rightarrow> int option" where
  "js_rem a b = (if b = 0 then None else Some (a smod b))"

text \<open>\<^verbatim>\<open>x || d\<close> on an optional number: \<^verbatim>\<open>undefined\<close> and \<^verbatim>\<open>0\<close> are falsy (a real
  is never NaN).\<close>

definition or_number :: "real option \<Rightarrow> real \<Rightarrow> real" where
  "or_number x d = (case x of None \<Rightarrow> d | Some v \<Rightarrow> if v = 0 then d else v)"

text \<open>\<^verbatim>\<open>s || d\<close> on an optional string: \<^verbatim>\<open>undefined\<close> and the empty string are falsy.\<close>

definition or_string :: "string option \<Rightarrow> string \<Rightarrow> string" where
  "or_string s d = (case s of None \<Rightarrow> d | Some v \<Rightarrow> if v = [] then d else v)"

text \<open>\<^verbatim>\<open>xs[i]\<close>: \<^verbatim>\<open>undefined\<close> past the end of the array.\<close>

definition element :: "'a list \<Rightarrow> nat \<Rightarrow> 'a option" where
  "element xs i = (if i < length xs then Some (xs ! i) else None)"

section \<open>Vectors, angles and matrices of the rendering library\<close>

datatype Cartesian3 = Cartesian3 (cx: real) (cy: real) (cz: real)

definition ZERO :: Cartesian3 where
  "ZERO = Cartesian3 0 0 0"

definition UNIT_Z :: Cartesian3 where
  "UNIT_Z = Cartesian3 0 0 1"

definition clone :: "Cartesian3 \<Rightarrow> Cartesian3" where
  "clone v = Cartesian3 (cx v) (cy v) (cz v)"

definition add :: "Cartesian3 \<Rightarrow> Cartesian3 \<Rightarrow> Cartesian3" where
  "add l r = Cartesian3 (cx l + cx r) (cy l + cy r) (cz l + cz r)"

definition subtract :: "Cartesian3 \<Rightarrow> Cartesian3 \<Rightarrow> Cartesian3" where
  "subtract l r = Cartesian3 (cx l - cx r) (cy l - cy r) (cz l - cz r)"

definition multiplyByScalar :: "Cartesian3 \<Rightarrow> real \<Rightarrow> Cartesian3" where
  "multiplyByScalar v s = Cartesian3 (cx v * s) (cy v * s) (cz v * s)"

definition magnitude :: "Cartesian3 \<Rightarrow> real" where
  "magnitude v = sqrt (cx v * cx v + cy v * cy v + cz v * cz v)"

text \<open>\<^verbatim>\<open>Cartesian3.normalize\<close> divides by the magnitude; on the zero vector the
  library raises (\<^const>\<open>None\<close>).\<close>

definition normalize :: "Cartesian3 \<Rightarrow> Cartesian3 option" where
  "normalize v =
     (if magnitude v = 0 then None
      else Some (Cartesian3 (cx v / magnitude v) (cy v / magnitude v) (cz v / magnitude v)))"

definition toRadians :: "real \<Rightarrow> real" where
  "toRadians degrees = degrees * (pi / 180)"

datatype HeadingPitchRoll = HeadingPitchRoll (hpr_heading: real) (hpr_pitch: real) (hpr_roll: real)

text \<open>A \<^verbatim>\<open>Matrix4\<close> of an affine frame, by columns: the images of the three local axes
  and the translation (the fourth row is \<open>0 0 0 1\<close>).\<close>

datatype Matrix4 =
  Matrix4 (column0: Cartesian3) (column1: Cartesian3) (column2: Cartesian3) (column3: Cartesian3)

text \<open>\<^verbatim>\<open>Matrix4.multiplyByPointAsVector\<close>: the upper left 3x3 block applied to a
  direction; the translation is not added.\<close>

definition multiplyByPointAsVector :: "Matrix4 \<Rightarrow> Cartesian3 \<Rightarrow> Cartesian3" where
  "multiplyByPointAsVector m v =
     Cartesian3
       (cx (column0 m) * cx v + cx (column1 m) * cy v + cx (column2 m) * cz v)
       (cy (column0 m) * cx v + cy (column1 m) * cy v + cy (column2 m) * cz v)
       (cz (column0 m) * cx v + cz (column1 m) * cy v + cz (column2 m) * cz v)"

datatype Color = Color (red: real) (green: real) (blue: real) (alpha: real)

definition withAlpha :: "Color \<Rightarrow> real \<Rightarrow> Color" where
  "withAlpha c a = Color (red c) (green c) (blue c) a"

definition RED :: Color where
  "RED = Color 1 0 0 1"

definition WHITE :: Color where
  "WHITE = Color 1 1 1 1"

definition CORAL :: Color where
  "CORAL = Color 1 (127 / 255) (80 / 255) 1"

section \<open>The interface of the rendering library\<close>

text \<open>
  The rendering library (Cesium) is not part of the repository. The creators are modelled
  over a record of the library functions they call, so that what is proved of a creator
  holds for every behaviour of the library; \<open>'q\<close> is the library's type of orientation
  quaternions. A constructor that can raise has a predicate saying on which arguments it
  does; so has \<^verbatim>\<open>primitives.add\<close>, which leaves the collection as it was when it raises.
  \<^verbatim>\<open>primitives.remove(primitive)\<close> gives the collection after the call, or raises
  (\<^const>\<open>None\<close>).
\<close>

text \<open>\<^verbatim>\<open>new Cesium.WallGeometry({positions, minimumHeights, maximumHeights})\<close> and
  \<^verbatim>\<open>new Cesium.CylinderGeometry({length, topRadius, bottomRadius, slices})\<close>.\<close>

datatype Geometry =
    WallGeometry "Cartesian3 list" "real list" "real list"
  | CylinderGeometry real real real nat

datatype uniform = UColor Color | UNumber real

text \<open>The shader sources are constant strings of the repository; only which one is used
  is kept.\<close>

datatype shader = FlameSource | FlowSource | ConicalSource

record Fabric =
  uniforms :: "(string \<times> uniform) list"
  source :: shader

text \<open>The factors of a model matrix, in the order they are multiplied.\<close>

datatype 'q transform =
    FromTranslation Cartesian3
  | FromQuaternion 'q
  | FromAxisAngle Cartesian3 real

text \<open>\<^verbatim>\<open>new Cesium.Primitive({geometryInstances, appearance, asynchronous})\<close>, with
  the geometry and model matrix of its one instance and the material, \<^verbatim>\<open>translucent\<close>
  and \<^verbatim>\<open>closed\<close> of its appearance (\<^verbatim>\<open>closed\<close> is false when not given).\<close>

record 'q Primitive =
  geometry :: Geometry
  modelMatrix :: "'q transform list"
  appearance_material :: Fabric
  appearance_translucent :: bool
  appearance_closed :: bool
  asynchronous :: bool

record 'q cesium =
  fromDegrees :: "real option \<Rightarrow> real option \<Rightarrow> real \<Rightarrow> Cartesian3 option"
  fromDegreesArrayHeights :: "real option list \<Rightarrow> Cartesian3 list option"
  headingPitchRollToFixedFrame :: "Cartesian3 \<Rightarrow> HeadingPitchRoll \<Rightarrow> Matrix4"
  headingPitchRollQuaternion :: "Cartesian3 \<Rightarrow> HeadingPitchRoll \<Rightarrow> 'q"
  fromCssColorString :: "string \<Rightarrow> Color option"
  geometryThrows :: "Geometry \<Rightarrow> bool"
  materialThrows :: "Fabric \<Rightarrow> bool"
  primitiveThrows :: "'q Primitive \<Rightarrow> bool"
  addThrows :: "'q Primitive \<Rightarrow> bool"
  removePrimitive :: "'q Primitive \<Rightarrow> 'q Primitive list \<Rightarrow> 'q Primitive list option"

section \<open>The radial sweep material\<close>

text \<open>
  \<^verbatim>\<open>RadarPrimitiveMaterialProperty\<close> (RadarEmission.js lines 4 to 62, geometry.ts lines
  55 to 114). Every construction in the repository passes \<^verbatim>\<open>color\<close> and
  \<^verbatim>\<open>thickness\<close> only; \<open>now\<close> is the clock reading of the constructor.
\<close>

record RadarPrimitiveMaterialProperty =
  color :: "Color option"
  duration :: int
  time :: int
  repeat :: real
  offset :: real
  thickness :: real

definition newRadarPrimitiveMaterialProperty ::
  "int \<Rightarrow> Color option \<Rightarrow> real \<Rightarrow> RadarPrimitiveMaterialProperty" where
  "newRadarPrimitiveMaterialProperty now c t =
     \<lparr>color = c, duration = 2000, time = now, repeat = 30, offset = 0, thickness = t\<rparr>"

record radar_uniforms =
  result_color :: "Color option"
  result_time :: "real option"
  result_repeat :: real
  result_offset :: real
  result_thickness :: real

text \<open>The \<^verbatim>\<open>time\<close> uniform of both versions of \<^verbatim>\<open>getValue\<close>:
  \<^verbatim>\<open>((new Date().getTime() - this._time) % this.duration) / this.duration / 10\<close>.\<close>

definition sweep_time :: "RadarPrimitiveMaterialProperty \<Rightarrow> int \<Rightarrow> real option" where
  "sweep_time m now =
     (case js_rem (now - time m) (duration m) of
        None \<Rightarrow> None
      | Some r \<Rightarrow> Some (real_of_int r / real_of_int (duration m) / 10))"

text \<open>\<^verbatim>\<open>getValue\<close> of RadarEmission.js: the colour is the value of the colour
  property, white when there is none. \<open>now\<close> is the clock reading of this evaluation.\<close>

definition getValue :: "RadarPrimitiveMaterialProperty \<Rightarrow> int \<Rightarrow> radar_uniforms" where
  "getValue m now =
     \<lparr>result_color = Some (case color m of None \<Rightarrow> WHITE | Some c \<Rightarrow> c),
      result_time = sweep_time m now,
      result_repeat = repeat m,
      result_offset = offset m,
      result_thickness = thickness m\<rparr>"

text \<open>\<^verbatim>\<open>getValue\<close> of geometry.ts: the colour is the stored one.\<close>

definition getValue_ts :: "RadarPrimitiveMaterialProperty \<Rightarrow> int \<Rightarrow> radar_uniforms" where
  "getValue_ts m now =
     \<lparr>result_color = color m,
      result_time = sweep_time m now,
      result_repeat = repeat m,
      result_offset = offset m,
      result_thickness = thickness m\<rparr>"

text \<open>The normalized phase of the specification's material clock, with the mathematical
  remainder.\<close>

definition normalized_phase :: "int \<Rightarrow> int \<Rightarrow> int \<Rightarrow> real" where
  "normalized_phase now originTime periodMs =
     real_of_int ((now - originTime) mod periodMs) / real_of_int periodMs"

section \<open>The pose of a cone\<close>

text \<open>
  The three cone creators compute the pose inline. geometry.ts lines 176 to 214 and
  RadarEmission.js lines 140 to 184 are the same statements; the second version of
  \<^verbatim>\<open>createRadarCone\<close>, RadarEmission.js lines 374 to 421, differs.
\<close>

record 'q pose =
  vertexPosition :: Cartesian3
  worldDirection :: Cartesian3
  cylinderCenter :: Cartesian3
  orientation :: 'q

definition conePose :: "'q cesium \<Rightarrow> Cartesian3 \<Rightarrow> real \<Rightarrow> real \<Rightarrow> real \<Rightarrow> 'q pose option" where
  "conePose cs vertex headingDegrees pitchDegrees len =
     (let heading = toRadians headingDegrees;
          pitch = toRadians pitchDegrees;
          roll = 0;
          hpr = HeadingPitchRoll heading pitch roll;
          halfLength = len / 2;
          direction = UNIT_Z;
          transform = headingPitchRollToFixedFrame cs vertex hpr
      in case normalize (multiplyByPointAsVector transform direction) of
           None \<Rightarrow> None
         | Some dir \<Rightarrow>
             Some \<lparr>vertexPosition = vertex,
                   worldDirection = dir,
                   cylinderCenter = subtract (clone vertex) (multiplyByScalar dir halfLength),
                   orientation = headingPitchRollQuaternion cs vertex hpr\<rparr>)"

definition conePose_v2 :: "'q cesium \<Rightarrow> Cartesian3 \<Rightarrow> real \<Rightarrow> real \<Rightarrow> real \<Rightarrow> 'q pose option" where
  "conePose_v2 cs vertex headingDegrees pitchDegrees len =
     (let heading = toRadians headingDegrees;
          originalPitch = toRadians pitchDegrees;
          pitch = - originalPitch;
          roll = 0;
          hpr = HeadingPitchRoll heading pitch roll;
          transform = headingPitchRollToFixedFrame cs vertex hpr;
          localAxis = Cartesian3 0 1 0
      in case normalize (multiplyByPointAsVector transform localAxis) of
           None \<Rightarrow> None
         | Some worldAxis \<Rightarrow>
             let halfLength = len / 2;
                 center = subtract (clone vertex) (multiplyByScalar worldAxis halfLength)
             in Some \<lparr>vertexPosition = vertex,
                      worldDirection = worldAxis,
                      cylinderCenter = center,
                      orientation = headingPitchRollQuaternion cs center hpr\<rparr>)"

text \<open>The pose record keeps, beside the centre and the orientation handed to the
  entity, the apex position and the unit direction they were computed from.\<close>

section \<open>RadarEmission.createRadarCone\<close>

record RadarOptions =
  re_position :: "real list"
  re_heading :: real
  re_color :: "Color option"
  re_length :: real
  re_bottomRadius :: real
  re_thickness :: real
  re_pitch :: real

text \<open>The defaults of the constructor (RadarEmission.js lines 71 to 79).\<close>

definition RadarEmission_defaults :: RadarOptions where
  "RadarEmission_defaults =
     \<lparr>re_position = [114, 35, 0], re_heading = 135, re_color = Some CORAL,
      re_length = 500000, re_bottomRadius = 50000, re_thickness = 0.1, re_pitch = 0\<rparr>"

text \<open>The argument of \<^verbatim>\<open>entities.add\<close>: position, orientation, the cylinder and, in
  RadarEmission.js, the point that marks the apex.\<close>

record 'q Entity =
  entity_name :: string
  entity_position :: Cartesian3
  entity_orientation :: 'q
  cylinder_length :: real
  cylinder_topRadius :: real
  cylinder_bottomRadius :: real
  cylinder_material :: RadarPrimitiveMaterialProperty
  point_position :: "Cartesian3 option"

record 'q Viewer =
  entities :: "'q Entity list"
  primitives :: "'q Primitive list"

definition radarEntity ::
  "'q pose \<Rightarrow> real \<Rightarrow> real \<Rightarrow> RadarPrimitiveMaterialProperty \<Rightarrow> Cartesian3 option \<Rightarrow> 'q Entity" where
  "radarEntity p len bottom mat pt =
     \<lparr>entity_name = ''Radar Cone'',
      entity_position = cylinderCenter p,
      entity_orientation = orientation p,
      cylinder_length = len,
      cylinder_topRadius = 0,
      cylinder_bottomRadius = bottom,
      cylinder_material = mat,
      point_position = pt\<rparr>"

text \<open>First version (RadarEmission.js lines 133 to 216). The third element of the position
  is read and not used: the apex is taken at height 0. There is no \<^verbatim>\<open>try\<close>.\<close>

definition createRadarCone ::
  "'q cesium \<Rightarrow> int \<Rightarrow> 'q Viewer \<Rightarrow> RadarOptions \<Rightarrow> 'q Entity result \<times> 'q Viewer" where
  "createRadarCone cs now viewer options =
     (let lng = element (re_position options) 0;
          lat = element (re_position options) 1
      in case fromDegrees cs lng lat 0 of
           None \<Rightarrow> (Thrown, viewer)
         | Some vertex \<Rightarrow>
             (case conePose cs vertex (re_heading options) (re_pitch options) (re_length options) of
                None \<Rightarrow> (Thrown, viewer)
              | Some p \<Rightarrow>
                  let entity = radarEntity p (re_length options) (re_bottomRadius options)
                        (newRadarPrimitiveMaterialProperty now (re_color options) (re_thickness options))
                        (Some vertex)
                  in (Returned entity, viewer\<lparr>entities := entities viewer @ [entity]\<rparr>)))"

text \<open>Second version (RadarEmission.js lines 367 to 447).\<close>

definition createRadarCone_v2 ::
  "'q cesium \<Rightarrow> int \<Rightarrow> 'q Viewer \<Rightarrow> RadarOptions \<Rightarrow> 'q Entity result \<times> 'q Viewer" where
  "createRadarCone_v2 cs now viewer options =
     (let lng = element (re_position options) 0;
          lat = element (re_position options) 1
      in case fromDegrees cs lng lat 0 of
           None \<Rightarrow> (Thrown, viewer)
         | Some vertex \<Rightarrow>
             (case conePose_v2 cs vertex (re_heading options) (re_pitch options) (re_length options) of
                None \<Rightarrow> (Thrown, viewer)
              | Some p \<Rightarrow>
                  let entity = radarEntity p (re_length options) (re_bottomRadius options)
                        (newRadarPrimitiveMaterialProperty now (re_color options) (re_thickness options))
                        (Some vertex)
                  in (Returned entity, viewer\<lparr>entities := entities viewer @ [entity]\<rparr>)))"

section \<open>The effect registry\<close>

datatype 'q graphic = EntityGraphic "'q Entity" | PrimitiveGraphic "'q Primitive"

text \<open>
  Modelled from the spec: the store \<^verbatim>\<open>useMapStore\<close> of \<^verbatim>\<open>@/stores/modules/mapStore\<close> is
  not among the sources. The specification takes its backing store to be a simple
  dictionary from effect identifiers to handles: \<^verbatim>\<open>getMap()\<close> gives the map instance or
  nothing, \<^verbatim>\<open>getGraphicMap(id)\<close> looks an identifier up, \<^verbatim>\<open>setGraphicMap(id, handle)\<close>
  stores a handle under it. The record also holds the one global the creators write, the
  flag \<^verbatim>\<open>Cesium.Material.radarPrimitiveType\<close> of the registered sweep material.
\<close>

record 'q world =
  getMap :: "'q Viewer option"
  getGraphicMap :: "string \<Rightarrow> 'q graphic option"
  radarPrimitiveType :: bool

text \<open>Modelled from the spec: \<^verbatim>\<open>setGraphicMap(id, handle)\<close> of the store, which puts the
  handle under the identifier in the dictionary.\<close>

definition setGraphicMap :: "string \<Rightarrow> 'q graphic \<Rightarrow> 'q world \<Rightarrow> 'q world" where
  "setGraphicMap i g w = w\<lparr>getGraphicMap := (getGraphicMap w)(i \<mapsto> g)\<rparr>"

text \<open>\<^verbatim>\<open>registerRadarMaterial\<close> (geometry.ts lines 122 to 164): registers once, guarded
  by the flag.\<close>

definition registerRadarMaterial :: "'q world \<Rightarrow> 'q world" where
  "registerRadarMaterial w = (if radarPrimitiveType w then w else w\<lparr>radarPrimitiveType := True\<rparr>)"

section \<open>geometry.ts: conicalWave\<close>

record ConicalWaveOptions =
  cw_id :: string
  cw_positions :: "real list"
  cw_heading :: real
  cw_pitch :: real
  cw_length :: real
  cw_bottomRadius :: real
  cw_thickness :: real
  cw_color :: "string option"

text \<open>geometry.ts lines 32 to 236. Nothing checks the length, and there is no
  \<^verbatim>\<open>try\<close>: \<^verbatim>\<open>fromCssColorString\<close> gives \<^verbatim>\<open>undefined\<close> for a string it cannot read, and
  \<^verbatim>\<open>color.withAlpha\<close> then raises.\<close>

definition conicalWave ::
  "'q cesium \<Rightarrow> int \<Rightarrow> 'q world \<Rightarrow> ConicalWaveOptions \<Rightarrow> 'q graphic result \<times> 'q world" where
  "conicalWave cs now w options =
     (case getMap w of
        None \<Rightarrow> (Null MapMissing, w)
      | Some viewer \<Rightarrow>
          if getGraphicMap w (cw_id options) \<noteq> None then (Null EffectExists, w)
          else
            let w1 = registerRadarMaterial w;
                lng = element (cw_positions options) 0;
                lat = element (cw_positions options) 1;
                height = (case element (cw_positions options) 2 of None \<Rightarrow> 0 | Some h \<Rightarrow> h)
            in (case fromDegrees cs lng lat height of
                 None \<Rightarrow> (Thrown, w1)
               | Some vertex \<Rightarrow>
                   (case conePose cs vertex (cw_heading options) (cw_pitch options) (cw_length options) of
                      None \<Rightarrow> (Thrown, w1)
                    | Some p \<Rightarrow>
                        (case fromCssColorString cs (or_string (cw_color options) ''#00FFFF'') of
                           None \<Rightarrow> (Thrown, w1)
                         | Some c \<Rightarrow>
                             let entity = radarEntity p (cw_length options) (cw_bottomRadius options)
                                   (newRadarPrimitiveMaterialProperty now (Some (withAlpha c 0.7))
                                      (cw_thickness options))
                                   None
                             in (Returned (EntityGraphic entity),
                                 setGraphicMap (cw_id options) (EntityGraphic entity)
                                   (w1\<lparr>getMap := Some (viewer\<lparr>entities := entities viewer @ [entity]\<rparr>)\<rparr>))))))"

section \<open>The fence module: fenceFlowEffect and conicalEffect\<close>

record FenceOptions =
  ff_id :: string
  ff_positions :: "real list list option"
  ff_color :: "string option"
  ff_speed :: "real option"
  ff_width :: "real option"
  ff_maxHeight :: "real option"

text \<open>\<^verbatim>\<open>options.positions.map(pos => [pos[0], pos[1], pos[2] || 0])\<close>.\<close>

definition coordinates :: "real list list \<Rightarrow> real option list list" where
  "coordinates ps = map (\<lambda>pos. [element pos 0, element pos 1, Some (or_number (element pos 2) 0)]) ps"

text \<open>The \<^verbatim>\<open>try\<close> block of the flame version up to the constructed primitive
  (unnamed/part_000 lines 50 to 155); \<^const>\<open>None\<close> when a library call raises.\<close>

definition flamePrimitive ::
  "'q cesium \<Rightarrow> FenceOptions \<Rightarrow> real list list \<Rightarrow> real \<Rightarrow> real \<Rightarrow> 'q Primitive option" where
  "flamePrimitive cs options ps maxHeight speed =
     (let flattenedCoords = concat (coordinates ps)
      in case fromDegreesArrayHeights cs flattenedCoords of
           None \<Rightarrow> None
         | Some cartesians \<Rightarrow>
             (let wallGeometry =
                    WallGeometry cartesians
                      (replicate (length (coordinates ps)) 0)
                      (replicate (length (coordinates ps)) maxHeight)
              in if geometryThrows cs wallGeometry then None
                 else
                   (case fromCssColorString cs (or_string (ff_color options) ''#FF6600'') of
                      None \<Rightarrow> None
                    | Some c \<Rightarrow>
                        (let fabric =
                               \<lparr>uniforms =
                                  [(''u_color'', UColor (withAlpha c 0.9)),
                                   (''u_speed'', UNumber speed),
                                   (''u_maxHeight'', UNumber maxHeight),
                                   (''u_time'', UNumber 0)],
                                source = FlameSource\<rparr>;
                             primitive =
                               \<lparr>geometry = wallGeometry, modelMatrix = [],
                                appearance_material = fabric, appearance_translucent = True,
                                appearance_closed = False, asynchronous = False\<rparr>
                         in if materialThrows cs fabric then None
                            else if primitiveThrows cs primitive then None
                            else Some primitive))))"

text \<open>\<^verbatim>\<open>map.scene.primitives.add(primitive)\<close> followed by
  \<^verbatim>\<open>mapStore.setGraphicMap(options.id, primitive)\<close>.\<close>

definition addPrimitive :: "string \<Rightarrow> 'q Primitive \<Rightarrow> 'q Viewer \<Rightarrow> 'q world \<Rightarrow> 'q world" where
  "addPrimitive i primitive viewer w =
     setGraphicMap i (PrimitiveGraphic primitive)
       (w\<lparr>getMap := Some (viewer\<lparr>primitives := primitives viewer @ [primitive]\<rparr>)\<rparr>)"

text \<open>The flame version of \<^verbatim>\<open>fenceFlowEffect\<close> (unnamed/part_000 lines 20 to
  168; RadarEmission.js lines 485 to 633 are the same function).\<close>

definition fenceFlowEffect ::
  "'q cesium \<Rightarrow> 'q world \<Rightarrow> FenceOptions \<Rightarrow> 'q graphic result \<times> 'q world" where
  "fenceFlowEffect cs w options =
     (case getMap w of
        None \<Rightarrow> (Null MapMissing, w)
      | Some viewer \<Rightarrow>
          if getGraphicMap w (ff_id options) \<noteq> None then (Null EffectExists, w)
          else
            (case ff_positions options of
               None \<Rightarrow> (Null NeedTwoPoints, w)
             | Some ps \<Rightarrow>
                 if length ps < 2 then (Null NeedTwoPoints, w)
                 else
                   (let maxHeight = or_number (ff_maxHeight options) 100;
                        speed = or_number (ff_speed options) 1.0
                    in (case flamePrimitive cs options ps maxHeight speed of
                          None \<Rightarrow> (Null CreationFailed, w)
                        | Some primitive \<Rightarrow>
                            if addThrows cs primitive then (Null CreationFailed, w)
                            else (Returned (PrimitiveGraphic primitive),
                                  addPrimitive (ff_id options) primitive viewer w)))))"

text \<open>The \<^verbatim>\<open>try\<close> block of the flow version up to the constructed primitive
  (unnamed/part_000 lines 362 to 427): the wall is 100 high whatever the options say.\<close>

definition flowPrimitive ::
  "'q cesium \<Rightarrow> FenceOptions \<Rightarrow> real list list \<Rightarrow> 'q Primitive option" where
  "flowPrimitive cs options ps =
     (let flattenedCoords = concat (coordinates ps)
      in case fromDegreesArrayHeights cs flattenedCoords of
           None \<Rightarrow> None
         | Some cartesians \<Rightarrow>
             (let wall =
                    WallGeometry cartesians
                      (replicate (length (coordinates ps)) 0)
                      (replicate (length (coordinates ps)) 100)
              in if geometryThrows cs wall then None
                 else
                   (case fromCssColorString cs (or_string (ff_color options) ''#00FFFF'') of
                      None \<Rightarrow> None
                    | Some c \<Rightarrow>
                        (let fabric =
                               \<lparr>uniforms =
                                  [(''u_color'', UColor (withAlpha c 0.8)),
                                   (''u_speed'', UNumber (or_number (ff_speed options) 1.0)),
                                   (''u_width'', UNumber (or_number (ff_width options) 0.1))],
                                source = FlowSource\<rparr>;
                             primitive =
                               \<lparr>geometry = wall, modelMatrix = [],
                                appearance_material = fabric, appearance_translucent = True,
                                appearance_closed = False, asynchronous = False\<rparr>
                         in if materialThrows cs fabric then None
                            else if primitiveThrows cs primitive then None
                            else Some primitive))))"

text \<open>The flow version of \<^verbatim>\<open>fenceFlowEffect\<close> (unnamed/part_000 lines 335 to 445).
  Its \<^verbatim>\<open>catch\<close> (lines 436 to 443) calls \<^verbatim>\<open>map.scene.primitives.remove(primitive)\<close> when a
  primitive was constructed, that is when \<^verbatim>\<open>primitives.add\<close> raised: the scene is then what
  the removal leaves, and an exception of the removal leaves the \<^verbatim>\<open>catch\<close> and the function.\<close>

definition fenceFlowEffect_v2 ::
  "'q cesium \<Rightarrow> 'q world \<Rightarrow> FenceOptions \<Rightarrow> 'q graphic result \<times> 'q world" where
  "fenceFlowEffect_v2 cs w options =
     (case getMap w of
        None \<Rightarrow> (Null MapMissing, w)
      | Some viewer \<Rightarrow>
          if getGraphicMap w (ff_id options) \<noteq> None then (Null EffectExists, w)
          else
            (case ff_positions options of
               None \<Rightarrow> (Null NeedTwoPoints, w)
             | Some ps \<Rightarrow>
                 if length ps < 2 then (Null NeedTwoPoints, w)
                 else
                   (case flowPrimitive cs options ps of
                      None \<Rightarrow> (Null CreationFailed, w)
                    | Some primitive \<Rightarrow>
                        if addThrows cs primitive then
                          (case removePrimitive cs primitive (primitives viewer) of
                             None \<Rightarrow> (Thrown, w)
                           | Some remaining \<Rightarrow>
                               (Null CreationFailed,
                                w\<lparr>getMap := Some (viewer\<lparr>primitives := remaining\<rparr>)\<rparr>))
                        else (Returned (PrimitiveGraphic primitive),
                              addPrimitive (ff_id options) primitive viewer w))))"

record ConicalOptions =
  ce_id :: string
  ce_positions :: "real list option"
  ce_color :: "string option"
  ce_height :: "real option"
  ce_radius :: "real option"
  ce_heading :: "real option"
  ce_pitch :: "real option"

text \<open>The \<^verbatim>\<open>try\<close> block of \<^verbatim>\<open>conicalEffect\<close> up to the constructed primitive
  (unnamed/part_000 lines 203 to 297). The model matrix is
  \<^verbatim>\<open>translateToGround * rotateHPR * rotateX * translateUp\<close>; the vertex format of the
  geometry is a constant and is left out.\<close>

definition conicalPrimitive ::
  "'q cesium \<Rightarrow> ConicalOptions \<Rightarrow> real \<Rightarrow> real \<Rightarrow> real \<Rightarrow> 'q Primitive option" where
  "conicalPrimitive cs options lng lat height =
     (let conicalHeight = or_number (ce_height options) 200;
          conicalRadius = or_number (ce_radius options) 50
      in case fromDegrees cs (Some lng) (Some lat) height of
           None \<Rightarrow> None
         | Some center \<Rightarrow>
             (case fromDegrees cs (Some lng) (Some lat) (height + conicalHeight) of
                None \<Rightarrow> None
              | Some top' \<Rightarrow>
                  (let cylinderGeometry = CylinderGeometry conicalHeight 0.0 conicalRadius 64;
                       heading = or_number (ce_heading options) 0;
                       pitch = or_number (ce_pitch options) 0;
                       roll = 0;
                       hprRotation =
                         headingPitchRollQuaternion cs ZERO (HeadingPitchRoll heading pitch roll);
                       rotateHPR = FromQuaternion hprRotation;
                       rotateX = FromAxisAngle (Cartesian3 1 0 0) (pi / 2);
                       translateUp = FromTranslation (Cartesian3 0 0 (- conicalHeight / 2));
                       translateToGround = FromTranslation center
                   in if geometryThrows cs cylinderGeometry then None
                      else
                        (case fromCssColorString cs (or_string (ce_color options) ''#00FFFF'') of
                           None \<Rightarrow> None
                         | Some c \<Rightarrow>
                             (let fabric =
                                    \<lparr>uniforms = [(''color'', UColor (withAlpha c 0.2))],
                                     source = ConicalSource\<rparr>;
                                  primitive =
                                    \<lparr>geometry = cylinderGeometry,
                                     modelMatrix = [translateToGround, rotateHPR, rotateX, translateUp],
                                     appearance_material = fabric, appearance_translucent = True,
                                     appearance_closed = True, asynchronous = False\<rparr>
                              in if materialThrows cs fabric then None
                                 else if primitiveThrows cs primitive then None
                                 else Some primitive)))))"

text \<open>\<^verbatim>\<open>conicalEffect\<close> (unnamed/part_000 lines 175 to 310).\<close>

definition conicalEffect ::
  "'q cesium \<Rightarrow> 'q world \<Rightarrow> ConicalOptions \<Rightarrow> 'q graphic result \<times> 'q world" where
  "conicalEffect cs w options =
     (case getMap w of
        None \<Rightarrow> (Null MapMissing, w)
      | Some viewer \<Rightarrow>
          if getGraphicMap w (ce_id options) \<noteq> None then (Null EffectExists, w)
          else
            (case ce_positions options of
               Some (lng # lat # height # rest) \<Rightarrow>
                 (case conicalPrimitive cs options lng lat height of
                    None \<Rightarrow> (Null CreationFailed, w)
                  | Some primitive \<Rightarrow>
                      if addThrows cs primitive then (Null CreationFailed, w)
                      else (Returned (PrimitiveGraphic primitive),
                            addPrimitive (ce_id options) primitive viewer w))
             | _ \<Rightarrow> (Null NeedValidPosition, w)))"

section \<open>A reference interpretation of the library\<close>

text \<open>
  Concrete inputs are evaluated on the library's documented geometry in exact arithmetic:
  the WGS84 ellipsoid, the east-north-up frame at a point off the polar axis, and the
  rotation of heading, pitch and roll (about the local z axis by minus the heading, the
  local y axis by minus the pitch, the local x axis by the roll). An orientation is
  represented by the rotation matrix its quaternion encodes. Only colour strings of the
  form \<^verbatim>\<open>#rrggbb\<close> are read, the constructors and the scene accept what they are given,
  and removing a primitive that was not added leaves the collection as it is.
\<close>

definition wgs84_a :: real where
  "wgs84_a = 6378137"

definition wgs84_b :: real where
  "wgs84_b = 6356752.3142451793"

definition multiplyComponents :: "Cartesian3 \<Rightarrow> Cartesian3 \<Rightarrow> Cartesian3" where
  "multiplyComponents l r = Cartesian3 (cx l * cx r) (cy l * cy r) (cz l * cz r)"

definition divideByScalar :: "Cartesian3 \<Rightarrow> real \<Rightarrow> Cartesian3" where
  "divideByScalar v s = Cartesian3 (cx v / s) (cy v / s) (cz v / s)"

definition dot :: "Cartesian3 \<Rightarrow> Cartesian3 \<Rightarrow> real" where
  "dot l r = cx l * cx r + cy l * cy r + cz l * cz r"

definition cross :: "Cartesian3 \<Rightarrow> Cartesian3 \<Rightarrow> Cartesian3" where
  "cross l r =
     Cartesian3 (cy l * cz r - cz l * cy r) (cz l * cx r - cx l * cz r) (cx l * cy r - cy l * cx r)"

definition normalized :: "Cartesian3 \<Rightarrow> Cartesian3" where
  "normalized v = divideByScalar v (magnitude v)"

definition wgs84_fromDegrees :: "real \<Rightarrow> real \<Rightarrow> real \<Rightarrow> Cartesian3" where
  "wgs84_fromDegrees longitude latitude height =
     (let lng = toRadians longitude;
          lat = toRadians latitude;
          radiiSquared = Cartesian3 (wgs84_a * wgs84_a) (wgs84_a * wgs84_a) (wgs84_b * wgs84_b);
          n = normalized (Cartesian3 (cos lat * cos lng) (cos lat * sin lng) (sin lat));
          k = multiplyComponents radiiSquared n;
          gamma = sqrt (dot n k)
      in add (divideByScalar k gamma) (multiplyByScalar n height))"

fun wgs84_arrayHeights :: "real option list \<Rightarrow> Cartesian3 list option" where
  "wgs84_arrayHeights [] = Some []"
| "wgs84_arrayHeights (Some lng # Some lat # Some h # rest) =
     (case wgs84_arrayHeights rest of
        None \<Rightarrow> None
      | Some ps \<Rightarrow> Some (wgs84_fromDegrees lng lat h # ps))"
| "wgs84_arrayHeights (x # rest) = None"

definition wgs84_geodeticSurfaceNormal :: "Cartesian3 \<Rightarrow> Cartesian3" where
  "wgs84_geodeticSurfaceNormal p =
     normalized (multiplyComponents p
       (Cartesian3 (1 / (wgs84_a * wgs84_a)) (1 / (wgs84_a * wgs84_a)) (1 / (wgs84_b * wgs84_b))))"

definition eastNorthUpToFixedFrame :: "Cartesian3 \<Rightarrow> Matrix4" where
  "eastNorthUpToFixedFrame origin =
     (let up = wgs84_geodeticSurfaceNormal origin;
          east = normalized (Cartesian3 (- cy origin) (cx origin) 0);
          north = cross up east
      in Matrix4 east north up origin)"

definition fromHeadingPitchRoll :: "HeadingPitchRoll \<Rightarrow> Matrix4" where
  "fromHeadingPitchRoll hpr =
     (let cosTheta = cos (- hpr_pitch hpr);
          cosPsi = cos (- hpr_heading hpr);
          cosPhi = cos (hpr_roll hpr);
          sinTheta = sin (- hpr_pitch hpr);
          sinPsi = sin (- hpr_heading hpr);
          sinPhi = sin (hpr_roll hpr)
      in Matrix4
           (Cartesian3 (cosTheta * cosPsi) (cosTheta * sinPsi) (- sinTheta))
           (Cartesian3 (- cosPhi * sinPsi + sinPhi * sinTheta * cosPsi)
                       (cosPhi * cosPsi + sinPhi * sinTheta * sinPsi)
                       (sinPhi * cosTheta))
           (Cartesian3 (sinPhi * sinPsi + cosPhi * sinTheta * cosPsi)
                       (- sinPhi * cosPsi + cosPhi * sinTheta * sinPsi)
                       (cosPhi * cosTheta))
           ZERO)"

definition wgs84_headingPitchRollToFixedFrame :: "Cartesian3 \<Rightarrow> HeadingPitchRoll \<Rightarrow> Matrix4" where
  "wgs84_headingPitchRollToFixedFrame origin hpr =
     (let frame = eastNorthUpToFixedFrame origin;
          r = fromHeadingPitchRoll hpr
      in Matrix4
           (multiplyByPointAsVector frame (column0 r))
           (multiplyByPointAsVector frame (column1 r))
           (multiplyByPointAsVector frame (column2 r))
           origin)"

datatype Rotation = Rotation Cartesian3 Cartesian3 Cartesian3

definition wgs84_headingPitchRollQuaternion :: "Cartesian3 \<Rightarrow> HeadingPitchRoll \<Rightarrow> Rotation" where
  "wgs84_headingPitchRollQuaternion origin hpr =
     (let m = wgs84_headingPitchRollToFixedFrame origin hpr
      in Rotation (column0 m) (column1 m) (column2 m))"

definition hexDigit :: "char \<Rightarrow> nat option" where
  "hexDigit c =
     (let n = (of_char c :: nat)
      in if 48 \<le> n \<and> n \<le> 57 then Some (n - 48)
         else if 65 \<le> n \<and> n \<le> 70 then Some (n - 55)
         else if 97 \<le> n \<and> n \<le> 102 then Some (n - 87)
         else None)"

definition hexByte :: "char \<Rightarrow> char \<Rightarrow> real option" where
  "hexByte h l =
     (case (hexDigit h, hexDigit l) of
        (Some a, Some b) \<Rightarrow> Some (real (16 * a + b) / 255)
      | _ \<Rightarrow> None)"

definition hex_fromCssColorString :: "string \<Rightarrow> Color option" where
  "hex_fromCssColorString s =
     (case s of
        [h, r1, r2, g1, g2, b1, b2] \<Rightarrow>
          (if h = CHR ''#'' then
             (case (hexByte r1 r2, hexByte g1 g2, hexByte b1 b2) of
                (Some r, Some g, Some b) \<Rightarrow> Some (Color r g b 1)
              | _ \<Rightarrow> None)
           else None)
      | _ \<Rightarrow> None)"

definition wgs84 :: "Rotation cesium" where
  "wgs84 =
     \<lparr>fromDegrees =
        (\<lambda>lng lat h. case (lng, lat) of (Some a, Some b) \<Rightarrow> Some (wgs84_fromDegrees a b h) | _ \<Rightarrow> None),
      fromDegreesArrayHeights = (\<lambda>xs. if length xs < 3 then None else wgs84_arrayHeights xs),
      headingPitchRollToFixedFrame = wgs84_headingPitchRollToFixedFrame,
      headingPitchRollQuaternion = wgs84_headingPitchRollQuaternion,
      fromCssColorString = hex_fromCssColorString,
      geometryThrows = (\<lambda>g. False),
      materialThrows = (\<lambda>f. False),
      primitiveThrows = (\<lambda>p. False),
      addThrows = (\<lambda>p. False),
      removePrimitive = (\<lambda>p ps. Some ps)\<rparr>"

text \<open>A map instance with an empty scene and an empty registry.\<close>

definition emptyWorld :: "Rotation world" where
  "emptyWorld =
     \<lparr>getMap = Some \<lparr>entities = [], primitives = []\<rparr>,
      getGraphicMap = (\<lambda>i. None),
      radarPrimitiveType = False\<rparr>"

section \<open>The quantities the specification speaks of\<close>

text \<open>The handle a call returned, if it returned one.\<close>

definition returned :: "'a result \<Rightarrow> 'a option" where
  "returned r = (case r of Returned x \<Rightarrow> Some x | Null m \<Rightarrow> None | Thrown \<Rightarrow> None)"

text \<open>\<open>P_anchor\<close>: the Cartesian position of the anchor \<^verbatim>\<open>[longitude, latitude, height]\<close>,
  a missing height being 0.\<close>

definition anchorPosition :: "'q cesium \<Rightarrow> real list \<Rightarrow> Cartesian3 option" where
  "anchorPosition cs anchor =
     fromDegrees cs (element anchor 0) (element anchor 1)
       (case element anchor 2 of None \<Rightarrow> 0 | Some h \<Rightarrow> h)"

text \<open>The frame angles of a creator called with heading and pitch in degrees, roll 0.\<close>

definition frameAngles :: "real \<Rightarrow> real \<Rightarrow> HeadingPitchRoll" where
  "frameAngles headingDegrees pitchDegrees =
     HeadingPitchRoll (toRadians headingDegrees) (toRadians pitchDegrees) 0"

text \<open>\<open>D\<close>: the unit direction of the local symmetry axis (the local z axis) in the frame
  of heading, pitch and roll rooted at a point.\<close>

definition axisDirection :: "'q cesium \<Rightarrow> Cartesian3 \<Rightarrow> HeadingPitchRoll \<Rightarrow> Cartesian3 option" where
  "axisDirection cs origin hpr =
     normalize (multiplyByPointAsVector (headingPitchRollToFixedFrame cs origin hpr) UNIT_Z)"

text \<open>The unit direction of the local y axis, which the second version of
  \<^verbatim>\<open>createRadarCone\<close> takes for the axis of the cone.\<close>

definition axisDirection_v2 :: "'q cesium \<Rightarrow> Cartesian3 \<Rightarrow> HeadingPitchRoll \<Rightarrow> Cartesian3 option" where
  "axisDirection_v2 cs origin hpr =
     normalize (multiplyByPointAsVector (headingPitchRollToFixedFrame cs origin hpr) (Cartesian3 0 1 0))"

text \<open>The apex reconstructed forward from an entity: \<open>center + D * (axialLength / 2)\<close>.\<close>

definition reconstructedApex :: "'q Entity \<Rightarrow> Cartesian3 \<Rightarrow> Cartesian3" where
  "reconstructedApex e d = add (entity_position e) (multiplyByScalar d (cylinder_length e / 2))"


text \<open>The pose of an entity: its centre and its orientation.\<close>

definition entityPose :: "'q Entity \<Rightarrow> Cartesian3 \<times> 'q" where
  "entityPose e = (entity_position e, entity_orientation e)"

section \<open>Concrete inputs\<close>

text \<open>An emitter on the equator at the prime meridian, heading north.\<close>

definition radarOptions :: "real \<Rightarrow> real \<Rightarrow> real \<Rightarrow> RadarOptions" where
  "radarOptions height pitchDegrees len =
     RadarEmission_defaults
       \<lparr>re_position := [0, 0, height], re_heading := 0, re_length := len, re_pitch := pitchDegrees\<rparr>"

definition waveOptions :: "real \<Rightarrow> real \<Rightarrow> string option \<Rightarrow> ConicalWaveOptions" where
  "waveOptions height len col =
     \<lparr>cw_id = ''wave'', cw_positions = [0, 0, height], cw_heading = 0, cw_pitch = 0,
      cw_length = len, cw_bottomRadius = 50000, cw_thickness = 0.1, cw_color = col\<rparr>"

definition fenceOptions :: "real list list \<Rightarrow> real option \<Rightarrow> real option \<Rightarrow> FenceOptions" where
  "fenceOptions ps maxHeight speed =
     \<lparr>ff_id = ''fence'', ff_positions = Some ps, ff_color = None, ff_speed = speed,
      ff_width = None, ff_maxHeight = maxHeight\<rparr>"

definition coneOptions :: ConicalOptions where
  "coneOptions =
     \<lparr>ce_id = ''cone'', ce_positions = Some [0, 0, 0], ce_color = None, ce_height = None,
      ce_radius = None, ce_heading = None, ce_pitch = None\<rparr>"

definition emptyViewer :: "Rotation Viewer" where
  "emptyViewer = \<lparr>entities = [], primitives = []\<rparr>"

section \<open>What a returned handle tells about the call\<close>

lemma add_subtract_cancel: "add (subtract (clone v) o') o' = v"
  by (cases v) (simp add: add_def subtract_def clone_def)

lemma conePose_SomeD:
  assumes "conePose cs v h p len = Some q"
  shows "vertexPosition q = v"
    and "axisDirection cs v (frameAngles h p) = Some (worldDirection q)"
    and "cylinderCenter q = subtract (clone v) (multiplyByScalar (worldDirection q) (len / 2))"
    and "orientation q = headingPitchRollQuaternion cs v (frameAngles h p)"
  using assms
  by (auto simp: conePose_def axisDirection_def frameAngles_def Let_def split: option.splits)

lemma conePose_v2_SomeD:
  assumes "conePose_v2 cs v h p len = Some q"
  shows "vertexPosition q = v"
    and "orientation q = headingPitchRollQuaternion cs (cylinderCenter q) (frameAngles h (- p))"
  using assms
  by (auto simp: conePose_v2_def frameAngles_def toRadians_def Let_def split: option.splits)

lemma conicalWave_ReturnedD:
  assumes "conicalWave cs now w options = (Returned g, w')"
  shows "\<exists>viewer vertex p c.
      getMap w = Some viewer \<and> getGraphicMap w (cw_id options) = None \<and>
      anchorPosition cs (cw_positions options) = Some vertex \<and>
      conePose cs vertex (cw_heading options) (cw_pitch options) (cw_length options) = Some p \<and>
      fromCssColorString cs (or_string (cw_color options) ''#00FFFF'') = Some c \<and>
      g = EntityGraphic (radarEntity p (cw_length options) (cw_bottomRadius options)
            (newRadarPrimitiveMaterialProperty now (Some (withAlpha c 0.7)) (cw_thickness options)) None)"
  using assms
  by (auto simp: conicalWave_def anchorPosition_def Let_def split: option.splits if_splits)

lemma createRadarCone_ReturnedD:
  assumes "createRadarCone cs now viewer options = (Returned e, v')"
  shows "\<exists>vertex p.
      fromDegrees cs (element (re_position options) 0) (element (re_position options) 1) 0 = Some vertex \<and>
      conePose cs vertex (re_heading options) (re_pitch options) (re_length options) = Some p \<and>
      e = radarEntity p (re_length options) (re_bottomRadius options)
            (newRadarPrimitiveMaterialProperty now (re_color options) (re_thickness options)) (Some vertex)"
  using assms
  by (auto simp: createRadarCone_def Let_def split: option.splits if_splits)

lemma createRadarCone_v2_ReturnedD:
  assumes "createRadarCone_v2 cs now viewer options = (Returned e, v')"
  shows "\<exists>vertex p.
      fromDegrees cs (element (re_position options) 0) (element (re_position options) 1) 0 = Some vertex \<and>
      conePose_v2 cs vertex (re_heading options) (re_pitch options) (re_length options) = Some p \<and>
      e = radarEntity p (re_length options) (re_bottomRadius options)
            (newRadarPrimitiveMaterialProperty now (re_color options) (re_thickness options)) (Some vertex)"
  using assms
  by (auto simp: createRadarCone_v2_def Let_def split: option.splits if_splits)

section \<open>The reference interpretation at the equator\<close>

lemma toRadians_0: "toRadians 0 = 0"
  by (simp add: toRadians_def)

lemma toRadians_180: "toRadians 180 = pi"
  by (simp add: toRadians_def)

lemma wgs84_a_pos: "0 < wgs84_a"
  by (simp add: wgs84_a_def)

lemma wgs84_b_pos: "0 < wgs84_b"
  by (simp add: wgs84_b_def)

lemma wgs84_fromDegrees_origin: "wgs84_fromDegrees 0 0 h = Cartesian3 (wgs84_a + h) 0 0"
  using wgs84_a_pos
  by (simp add: wgs84_fromDegrees_def toRadians_0 normalized_def magnitude_def divideByScalar_def
      multiplyComponents_def dot_def add_def multiplyByScalar_def Let_def)

lemma eastNorthUp_equator:
  assumes "0 < x"
  shows "eastNorthUpToFixedFrame (Cartesian3 x 0 0) =
    Matrix4 (Cartesian3 0 1 0) (Cartesian3 0 0 1) (Cartesian3 1 0 0) (Cartesian3 x 0 0)"
  using assms wgs84_a_pos
  by (simp add: eastNorthUpToFixedFrame_def wgs84_geodeticSurfaceNormal_def normalized_def magnitude_def
      divideByScalar_def multiplyComponents_def cross_def Let_def real_sqrt_mult real_sqrt_divide)

lemma frame_equator_level:
  assumes "0 < x"
  shows "wgs84_headingPitchRollToFixedFrame (Cartesian3 x 0 0) (HeadingPitchRoll 0 0 0) =
    Matrix4 (Cartesian3 0 1 0) (Cartesian3 0 0 1) (Cartesian3 1 0 0) (Cartesian3 x 0 0)"
  by (simp add: wgs84_headingPitchRollToFixedFrame_def eastNorthUp_equator [OF assms]
      fromHeadingPitchRoll_def multiplyByPointAsVector_def Let_def)

lemma frame_equator_pitch_pi:
  assumes "0 < x"
  shows "wgs84_headingPitchRollToFixedFrame (Cartesian3 x 0 0) (HeadingPitchRoll 0 pi 0) =
    Matrix4 (Cartesian3 0 (- 1) 0) (Cartesian3 0 0 1) (Cartesian3 (- 1) 0 0) (Cartesian3 x 0 0)"
  by (simp add: wgs84_headingPitchRollToFixedFrame_def eastNorthUp_equator [OF assms]
      fromHeadingPitchRoll_def multiplyByPointAsVector_def Let_def)

lemma frame_equator_pitch_minus_pi:
  assumes "0 < x"
  shows "wgs84_headingPitchRollToFixedFrame (Cartesian3 x 0 0) (HeadingPitchRoll 0 (- pi) 0) =
    Matrix4 (Cartesian3 0 (- 1) 0) (Cartesian3 0 0 1) (Cartesian3 (- 1) 0 0) (Cartesian3 x 0 0)"
  by (simp add: wgs84_headingPitchRollToFixedFrame_def eastNorthUp_equator [OF assms]
      fromHeadingPitchRoll_def multiplyByPointAsVector_def Let_def)

lemma normalize_unit_x: "normalize (Cartesian3 1 0 0) = Some (Cartesian3 1 0 0)"
  by (simp add: normalize_def magnitude_def)

lemma normalize_minus_unit_x: "normalize (Cartesian3 (- 1) 0 0) = Some (Cartesian3 (- 1) 0 0)"
  by (simp add: normalize_def magnitude_def)

lemma normalize_unit_z: "normalize (Cartesian3 0 0 1) = Some (Cartesian3 0 0 1)"
  by (simp add: normalize_def magnitude_def)

lemma conePose_equator_level:
  assumes "0 < x"
  shows "conePose wgs84 (Cartesian3 x 0 0) 0 0 len =
    Some \<lparr>vertexPosition = Cartesian3 x 0 0, worldDirection = Cartesian3 1 0 0,
          cylinderCenter = Cartesian3 (x - len / 2) 0 0,
          orientation = Rotation (Cartesian3 0 1 0) (Cartesian3 0 0 1) (Cartesian3 1 0 0)\<rparr>"
  by (simp add: conePose_def wgs84_def toRadians_0 frame_equator_level [OF assms] UNIT_Z_def
      multiplyByPointAsVector_def normalize_unit_x wgs84_headingPitchRollQuaternion_def
      subtract_def clone_def multiplyByScalar_def Let_def)

lemma conePose_equator_inverted:
  assumes "0 < x"
  shows "conePose wgs84 (Cartesian3 x 0 0) 0 180 len =
    Some \<lparr>vertexPosition = Cartesian3 x 0 0, worldDirection = Cartesian3 (- 1) 0 0,
          cylinderCenter = Cartesian3 (x + len / 2) 0 0,
          orientation = Rotation (Cartesian3 0 (- 1) 0) (Cartesian3 0 0 1) (Cartesian3 (- 1) 0 0)\<rparr>"
  by (simp add: conePose_def wgs84_def toRadians_0 toRadians_180 frame_equator_pitch_pi [OF assms]
      UNIT_Z_def multiplyByPointAsVector_def normalize_minus_unit_x
      wgs84_headingPitchRollQuaternion_def subtract_def clone_def multiplyByScalar_def Let_def)

lemma conePose_v2_equator_level:
  assumes "0 < x"
  shows "conePose_v2 wgs84 (Cartesian3 x 0 0) 0 0 len =
    Some \<lparr>vertexPosition = Cartesian3 x 0 0, worldDirection = Cartesian3 0 0 1,
          cylinderCenter = Cartesian3 x 0 (- (len / 2)),
          orientation = wgs84_headingPitchRollQuaternion (Cartesian3 x 0 (- (len / 2)))
            (HeadingPitchRoll 0 0 0)\<rparr>"
  by (simp add: conePose_v2_def wgs84_def toRadians_0 frame_equator_level [OF assms]
      multiplyByPointAsVector_def normalize_unit_z subtract_def clone_def multiplyByScalar_def Let_def)

lemma conePose_v2_equator_inverted:
  assumes "0 < x"
  shows "conePose_v2 wgs84 (Cartesian3 x 0 0) 0 180 len =
    Some \<lparr>vertexPosition = Cartesian3 x 0 0, worldDirection = Cartesian3 0 0 1,
          cylinderCenter = Cartesian3 x 0 (- (len / 2)),
          orientation = wgs84_headingPitchRollQuaternion (Cartesian3 x 0 (- (len / 2)))
            (HeadingPitchRoll 0 (- pi) 0)\<rparr>"
  by (simp add: conePose_v2_def wgs84_def toRadians_0 toRadians_180 frame_equator_pitch_minus_pi [OF assms]
      multiplyByPointAsVector_def normalize_unit_z subtract_def clone_def multiplyByScalar_def Let_def)

lemma up_off_equator:
  assumes "0 < x" "z \<noteq> 0"
  shows "wgs84_headingPitchRollQuaternion (Cartesian3 x 0 z) (HeadingPitchRoll 0 0 0) \<noteq>
    Rotation (Cartesian3 0 1 0) (Cartesian3 0 0 1) (Cartesian3 1 0 0)"
proof
  assume eq: "wgs84_headingPitchRollQuaternion (Cartesian3 x 0 z) (HeadingPitchRoll 0 0 0) =
    Rotation (Cartesian3 0 1 0) (Cartesian3 0 0 1) (Cartesian3 1 0 0)"
  have "cz (wgs84_geodeticSurfaceNormal (Cartesian3 x 0 z)) = 0"
    using eq
    by (simp add: wgs84_headingPitchRollQuaternion_def wgs84_headingPitchRollToFixedFrame_def
        eastNorthUpToFixedFrame_def fromHeadingPitchRoll_def multiplyByPointAsVector_def Let_def)
  moreover have "magnitude (Cartesian3 (x / (wgs84_a * wgs84_a)) 0 (z / (wgs84_b * wgs84_b))) \<noteq> 0"
    using assms wgs84_a_pos wgs84_b_pos
    by (simp add: magnitude_def add_nonneg_eq_0_iff)
  ultimately show False
    using assms wgs84_a_pos wgs84_b_pos
    by (simp add: wgs84_geodeticSurfaceNormal_def normalized_def divideByScalar_def
        multiplyComponents_def)
qed

section \<open>The creators on the concrete inputs\<close>

lemma radarOptions_fields:
  "re_position (radarOptions h p len) = [0, 0, h]"
  "re_heading (radarOptions h p len) = 0"
  "re_pitch (radarOptions h p len) = p"
  "re_length (radarOptions h p len) = len"
  by (simp_all add: radarOptions_def)

lemma anchorPosition_equator: "anchorPosition wgs84 [0, 0, h] = Some (Cartesian3 (wgs84_a + h) 0 0)"
  by (simp add: anchorPosition_def wgs84_def element_def wgs84_fromDegrees_origin)

lemma axisDirection_equator_level:
  assumes "0 < x"
  shows "axisDirection wgs84 (Cartesian3 x 0 0) (frameAngles 0 0) = Some (Cartesian3 1 0 0)"
  by (simp add: axisDirection_def frameAngles_def toRadians_0 wgs84_def frame_equator_level [OF assms]
      UNIT_Z_def multiplyByPointAsVector_def normalize_unit_x)

lemma createRadarCone_level:
  "createRadarCone wgs84 now emptyViewer (radarOptions h 0 len) =
     (Returned (radarEntity
        \<lparr>vertexPosition = Cartesian3 wgs84_a 0 0, worldDirection = Cartesian3 1 0 0,
         cylinderCenter = Cartesian3 (wgs84_a - len / 2) 0 0,
         orientation = Rotation (Cartesian3 0 1 0) (Cartesian3 0 0 1) (Cartesian3 1 0 0)\<rparr>
        len 50000 (newRadarPrimitiveMaterialProperty now (Some CORAL) 0.1)
        (Some (Cartesian3 wgs84_a 0 0))),
      emptyViewer\<lparr>entities := [radarEntity
        \<lparr>vertexPosition = Cartesian3 wgs84_a 0 0, worldDirection = Cartesian3 1 0 0,
         cylinderCenter = Cartesian3 (wgs84_a - len / 2) 0 0,
         orientation = Rotation (Cartesian3 0 1 0) (Cartesian3 0 0 1) (Cartesian3 1 0 0)\<rparr>
        len 50000 (newRadarPrimitiveMaterialProperty now (Some CORAL) 0.1)
        (Some (Cartesian3 wgs84_a 0 0))]\<rparr>)"
proof -
  have v: "fromDegrees wgs84 (Some 0) (Some 0) 0 = Some (Cartesian3 wgs84_a 0 0)"
    by (simp add: wgs84_def wgs84_fromDegrees_origin)
  show ?thesis
    by (simp add: createRadarCone_def radarOptions_def RadarEmission_defaults_def element_def v
        conePose_equator_level [OF wgs84_a_pos] emptyViewer_def Let_def)
qed

lemma conicalWave_level:
  assumes "0 \<le> h"
  shows "fst (conicalWave wgs84 now emptyWorld (waveOptions h len None)) =
     Returned (EntityGraphic (radarEntity
        \<lparr>vertexPosition = Cartesian3 (wgs84_a + h) 0 0, worldDirection = Cartesian3 1 0 0,
         cylinderCenter = Cartesian3 (wgs84_a + h - len / 2) 0 0,
         orientation = Rotation (Cartesian3 0 1 0) (Cartesian3 0 0 1) (Cartesian3 1 0 0)\<rparr>
        len 50000 (newRadarPrimitiveMaterialProperty now (Some (Color 0 1 1 0.7)) 0.1) None))"
proof -
  have v: "fromDegrees wgs84 (Some 0) (Some 0) h = Some (Cartesian3 (wgs84_a + h) 0 0)"
    by (simp add: wgs84_def wgs84_fromDegrees_origin)
  have pos: "0 < wgs84_a + h"
    using assms wgs84_a_pos by simp
  have c: "fromCssColorString wgs84 ''#00FFFF'' = Some (Color 0 1 1 1)"
    by (simp add: wgs84_def hex_fromCssColorString_def hexByte_def hexDigit_def)
  show ?thesis
    by (simp add: conicalWave_def waveOptions_def emptyWorld_def element_def v or_string_def c
        conePose_equator_level [OF pos] withAlpha_def Let_def)
qed


section \<open>Apex reconstruction\<close>

text \<open>
  C1, as amended. Apex reconstruction, in exact arithmetic: let \<open>P\<close> be the Cartesian position
  of the anchor. Whenever \<^verbatim>\<open>conicalWave\<close> returns an entity, and whenever
  \<^verbatim>\<open>createRadarCone\<close> returns one for an anchor whose height is 0 or missing, the unit
  direction \<open>D\<close> of the local z axis in the frame of heading and pitch rooted at \<open>P\<close>
  exists and \<open>center + D * (length / 2) = P\<close>. The length need not be positive.
\<close>

theorem C1_apex_reconstruction:
  assumes "anchorPosition cs anchor = Some P"
  shows "(cw_positions wave = anchor \<and> conicalWave cs now w wave = (Returned (EntityGraphic ew), w') \<longrightarrow>
           (\<exists>D. axisDirection cs P (frameAngles (cw_heading wave) (cw_pitch wave)) = Some D \<and>
                reconstructedApex ew D = P))
       \<and> (re_position radar = anchor \<and> (case element anchor 2 of None \<Rightarrow> 0 | Some h \<Rightarrow> h) = 0 \<and>
           createRadarCone cs now v radar = (Returned er, v') \<longrightarrow>
           (\<exists>D. axisDirection cs P (frameAngles (re_heading radar) (re_pitch radar)) = Some D \<and>
                reconstructedApex er D = P))"
proof (intro conjI impI)
  assume a: "cw_positions wave = anchor \<and> conicalWave cs now w wave = (Returned (EntityGraphic ew), w')"
  then obtain p c where p: "conePose cs P (cw_heading wave) (cw_pitch wave) (cw_length wave) = Some p"
    and e: "ew = radarEntity p (cw_length wave) (cw_bottomRadius wave)
            (newRadarPrimitiveMaterialProperty now (Some (withAlpha c 0.7)) (cw_thickness wave)) None"
    using conicalWave_ReturnedD [of cs now w wave "EntityGraphic ew" w'] assms by auto
  have "reconstructedApex ew (worldDirection p) = P"
    by (simp add: e reconstructedApex_def radarEntity_def conePose_SomeD(3) [OF p] add_subtract_cancel)
  with conePose_SomeD(2) [OF p]
  show "\<exists>D. axisDirection cs P (frameAngles (cw_heading wave) (cw_pitch wave)) = Some D \<and>
                reconstructedApex ew D = P"
    by blast
next
  assume a: "re_position radar = anchor \<and> (case element anchor 2 of None \<Rightarrow> 0 | Some h \<Rightarrow> h) = 0 \<and>
           createRadarCone cs now v radar = (Returned er, v')"
  then obtain p where p: "conePose cs P (re_heading radar) (re_pitch radar) (re_length radar) = Some p"
    and e: "er = radarEntity p (re_length radar) (re_bottomRadius radar)
            (newRadarPrimitiveMaterialProperty now (re_color radar) (re_thickness radar)) (Some P)"
    using createRadarCone_ReturnedD [of cs now v radar er v'] assms
    by (auto simp: anchorPosition_def)
  have "reconstructedApex er (worldDirection p) = P"
    by (simp add: e reconstructedApex_def radarEntity_def conePose_SomeD(3) [OF p] add_subtract_cancel)
  with conePose_SomeD(2) [OF p]
  show "\<exists>D. axisDirection cs P (frameAngles (re_heading radar) (re_pitch radar)) = Some D \<and>
                reconstructedApex er D = P"
    by blast
qed



theorem C1_apex_reconstruction_witness:
  "anchorPosition wgs84 [0, 0, 0] = Some (Cartesian3 wgs84_a 0 0)
   \<and> (\<exists>e w'. conicalWave wgs84 0 emptyWorld (waveOptions 0 2 None) = (Returned (EntityGraphic e), w')
        \<and> axisDirection wgs84 (Cartesian3 wgs84_a 0 0) (frameAngles 0 0) = Some (Cartesian3 1 0 0)
        \<and> reconstructedApex e (Cartesian3 1 0 0) = Cartesian3 wgs84_a 0 0)
   \<and> (\<exists>e v'. createRadarCone wgs84 0 emptyViewer (radarOptions 0 0 2) = (Returned e, v')
        \<and> reconstructedApex e (Cartesian3 1 0 0) = Cartesian3 wgs84_a 0 0)"
proof -
  have P: "anchorPosition wgs84 [0, 0, 0] = Some (Cartesian3 wgs84_a 0 0)"
    using anchorPosition_equator [of 0] by simp
  have D: "axisDirection wgs84 (Cartesian3 wgs84_a 0 0) (frameAngles 0 0) = Some (Cartesian3 1 0 0)"
    by (rule axisDirection_equator_level [OF wgs84_a_pos])
  obtain g w' where w: "conicalWave wgs84 0 emptyWorld (waveOptions 0 2 None) = (Returned (EntityGraphic g), w')"
    using conicalWave_level [of 0 0 2] by (cases "conicalWave wgs84 0 emptyWorld (waveOptions 0 2 None)") auto
  obtain e v' where r: "createRadarCone wgs84 0 emptyViewer (radarOptions 0 0 2) = (Returned e, v')"
    using createRadarCone_level [of 0 0 2] by blast
  have "reconstructedApex g (Cartesian3 1 0 0) = Cartesian3 wgs84_a 0 0"
    using C1_apex_reconstruction [OF P, where wave = "waveOptions 0 2 None" and now = 0
        and w = emptyWorld and ew = g and w' = w'] w D
    by (simp add: waveOptions_def)
  moreover have "reconstructedApex e (Cartesian3 1 0 0) = Cartesian3 wgs84_a 0 0"
    using C1_apex_reconstruction [OF P, where radar = "radarOptions 0 0 2" and now = 0
        and v = emptyViewer and er = e and v' = v'] r D
    by (simp add: radarOptions_def element_def)
  ultimately show ?thesis
    using P D w r by blast
qed

text \<open>As stated the claim fails on \<^verbatim>\<open>createRadarCone\<close>: for the anchor
  \<^verbatim>\<open>[0, 0, 1000]\<close> the reconstructed apex is the point at height 0, not the anchor.\<close>

theorem C1_createRadarCone_height_counterexample:
  "map_option (\<lambda>e. reconstructedApex e (Cartesian3 1 0 0))
       (returned (fst (createRadarCone wgs84 0 emptyViewer (radarOptions 1000 0 2))))
     = Some (Cartesian3 wgs84_a 0 0)
   \<and> anchorPosition wgs84 (re_position (radarOptions 1000 0 2)) = Some (Cartesian3 (wgs84_a + 1000) 0 0)
   \<and> axisDirection wgs84 (Cartesian3 (wgs84_a + 1000) 0 0)
        (frameAngles (re_heading (radarOptions 1000 0 2)) (re_pitch (radarOptions 1000 0 2)))
     = Some (Cartesian3 1 0 0)
   \<and> Cartesian3 wgs84_a 0 0 \<noteq> Cartesian3 (wgs84_a + 1000) 0 0"
proof -
  have pos: "0 < wgs84_a + 1000"
    using wgs84_a_pos by simp
  show ?thesis
    using axisDirection_equator_level [OF pos]
    by (simp add: createRadarCone_level returned_def reconstructedApex_def radarEntity_def
        add_def multiplyByScalar_def anchorPosition_equator radarOptions_fields)
qed

section \<open>The sweep material\<close>

lemma js_rem_elapsed:
  assumes "0 < d" "0 \<le> a"
  shows "js_rem a d = Some (a mod d)"
  using assms by (simp add: js_rem_def smod_int_alt_def sgn_if)

lemma sweep_time_elapsed:
  assumes "0 < duration m" "time m \<le> now"
  shows "sweep_time m now = Some (normalized_phase now (time m) (duration m) / 10)"
  using assms by (simp add: sweep_time_def normalized_phase_def js_rem_elapsed)

lemma normalized_phase_range:
  assumes "0 < d"
  shows "0 \<le> normalized_phase now t d" "normalized_phase now t d < 1"
  using assms by (simp_all add: normalized_phase_def)

lemma normalized_phase_eq_iff:
  assumes "0 < d"
  shows "(normalized_phase now' t d = normalized_phase now t d) = ((now' - t) mod d = (now - t) mod d)"
  using assms by (simp add: normalized_phase_def)

text \<open>
  C2, as amended. For a material with a positive duration, evaluated at or after its
  creation time, the \<^verbatim>\<open>time\<close> uniform of \<^verbatim>\<open>getValue\<close> (both versions) is one tenth of the
  normalized phase \<open>((now - originTime) mod periodMs) / periodMs\<close>, so it lies in
  \<open>[0, 1/10)\<close>. It is computed from the clock reading of the evaluation: two evaluations
  give the same uniform exactly when their phases agree.
\<close>

theorem C2_sweep_time:
  assumes "0 < duration m" and "time m \<le> now" and "time m \<le> now'"
  shows "result_time (getValue m now) = Some (normalized_phase now (time m) (duration m) / 10)
       \<and> result_time (getValue_ts m now) = Some (normalized_phase now (time m) (duration m) / 10)
       \<and> 0 \<le> normalized_phase now (time m) (duration m) / 10
       \<and> normalized_phase now (time m) (duration m) / 10 < 1 / 10
       \<and> ((result_time (getValue m now') = result_time (getValue m now))
            = ((now' - time m) mod duration m = (now - time m) mod duration m))"
proof -
  have t: "sweep_time m now = Some (normalized_phase now (time m) (duration m) / 10)"
    and t': "sweep_time m now' = Some (normalized_phase now' (time m) (duration m) / 10)"
    using assms by (simp_all add: sweep_time_elapsed)
  have "0 \<le> normalized_phase now (time m) (duration m) / 10"
    and "normalized_phase now (time m) (duration m) / 10 < 1 / 10"
    using normalized_phase_range [OF assms(1), of now "time m"] by simp_all
  moreover have "(result_time (getValue m now') = result_time (getValue m now))
      = ((now' - time m) mod duration m = (now - time m) mod duration m)"
    using normalized_phase_eq_iff [OF assms(1), of now' "time m" now]
    by (simp add: getValue_def t t')
  ultimately show ?thesis
    by (simp add: getValue_def getValue_ts_def t)
qed

theorem C2_sweep_time_witness:
  "0 < duration (newRadarPrimitiveMaterialProperty 0 (Some RED) 0.3)
   \<and> time (newRadarPrimitiveMaterialProperty 0 (Some RED) 0.3) \<le> 500
   \<and> time (newRadarPrimitiveMaterialProperty 0 (Some RED) 0.3) \<le> 2500
   \<and> result_time (getValue (newRadarPrimitiveMaterialProperty 0 (Some RED) 0.3) 500) = Some (1 / 40)
   \<and> result_time (getValue_ts (newRadarPrimitiveMaterialProperty 0 (Some RED) 0.3) 500) = Some (1 / 40)
   \<and> result_time (getValue (newRadarPrimitiveMaterialProperty 0 (Some RED) 0.3) 2500)
       = result_time (getValue (newRadarPrimitiveMaterialProperty 0 (Some RED) 0.3) 500)"
  using C2_sweep_time [of "newRadarPrimitiveMaterialProperty 0 (Some RED) 0.3" 500 2500]
  by (simp add: newRadarPrimitiveMaterialProperty_def normalized_phase_def)

text \<open>As stated the claim fails: half a period after the creation the phase is \<open>1/2\<close> and
  the uniform is \<open>1/20\<close>.\<close>

theorem C2_time_uniform_counterexample:
  "result_time (getValue (newRadarPrimitiveMaterialProperty 0 (Some RED) 0.3) 1000) = Some (1 / 20)
   \<and> result_time (getValue_ts (newRadarPrimitiveMaterialProperty 0 (Some RED) 0.3) 1000) = Some (1 / 20)
   \<and> normalized_phase 1000 0 2000 = 1 / 2"
  by (simp add: getValue_def getValue_ts_def sweep_time_def js_rem_def smod_int_alt_def
      newRadarPrimitiveMaterialProperty_def normalized_phase_def)

section \<open>The orientation of a cone\<close>

lemma createRadarCone_equator:
  assumes "conePose wgs84 (Cartesian3 wgs84_a 0 0) 0 p len = Some q"
  shows "fst (createRadarCone wgs84 now emptyViewer (radarOptions h p len)) =
    Returned (radarEntity q len 50000 (newRadarPrimitiveMaterialProperty now (Some CORAL) 0.1)
      (Some (Cartesian3 wgs84_a 0 0)))"
proof -
  have v: "fromDegrees wgs84 (Some 0) (Some 0) 0 = Some (Cartesian3 wgs84_a 0 0)"
    by (simp add: wgs84_def wgs84_fromDegrees_origin)
  show ?thesis
    by (simp add: createRadarCone_def radarOptions_def RadarEmission_defaults_def element_def v
        assms Let_def)
qed

lemma createRadarCone_v2_equator:
  assumes "conePose_v2 wgs84 (Cartesian3 wgs84_a 0 0) 0 p len = Some q"
  shows "fst (createRadarCone_v2 wgs84 now emptyViewer (radarOptions h p len)) =
    Returned (radarEntity q len 50000 (newRadarPrimitiveMaterialProperty now (Some CORAL) 0.1)
      (Some (Cartesian3 wgs84_a 0 0)))"
proof -
  have v: "fromDegrees wgs84 (Some 0) (Some 0) 0 = Some (Cartesian3 wgs84_a 0 0)"
    by (simp add: wgs84_def wgs84_fromDegrees_origin)
  show ?thesis
    by (simp add: createRadarCone_v2_def radarOptions_def RadarEmission_defaults_def element_def v
        assms Let_def)
qed

lemma quaternion_equator_level:
  assumes "0 < x"
  shows "headingPitchRollQuaternion wgs84 (Cartesian3 x 0 0) (frameAngles 0 0) =
    Rotation (Cartesian3 0 1 0) (Cartesian3 0 0 1) (Cartesian3 1 0 0)"
  by (simp add: wgs84_def frameAngles_def toRadians_0 wgs84_headingPitchRollQuaternion_def
      frame_equator_level [OF assms])

text \<open>
  C3, as amended. The orientation that \<^verbatim>\<open>conicalWave\<close> and the first
  \<^verbatim>\<open>createRadarCone\<close> give their entity is the heading/pitch/roll quaternion rooted at the
  apex position they compute from the anchor (at the anchor's height in \<^verbatim>\<open>conicalWave\<close>, at
  height 0 in \<^verbatim>\<open>createRadarCone\<close>, where it is also the marked point). The second
  \<^verbatim>\<open>createRadarCone\<close> roots it at the shifted centre of the entity, with the pitch negated.
\<close>

theorem C3_orientation_origin:
  "(conicalWave cs now w wave = (Returned (EntityGraphic ew), w') \<longrightarrow>
      (\<exists>P. anchorPosition cs (cw_positions wave) = Some P \<and>
           entity_orientation ew =
             headingPitchRollQuaternion cs P (frameAngles (cw_heading wave) (cw_pitch wave))))
   \<and> (createRadarCone cs now v radar = (Returned er, v') \<longrightarrow>
      (\<exists>P. fromDegrees cs (element (re_position radar) 0) (element (re_position radar) 1) 0 = Some P \<and>
           point_position er = Some P \<and>
           entity_orientation er =
             headingPitchRollQuaternion cs P (frameAngles (re_heading radar) (re_pitch radar))))
   \<and> (createRadarCone_v2 cs now v radar = (Returned es, u) \<longrightarrow>
      entity_orientation es =
        headingPitchRollQuaternion cs (entity_position es)
          (frameAngles (re_heading radar) (- re_pitch radar)))"
proof (intro conjI impI)
  assume "conicalWave cs now w wave = (Returned (EntityGraphic ew), w')"
  then obtain P p c where "anchorPosition cs (cw_positions wave) = Some P"
    and p: "conePose cs P (cw_heading wave) (cw_pitch wave) (cw_length wave) = Some p"
    and "ew = radarEntity p (cw_length wave) (cw_bottomRadius wave)
            (newRadarPrimitiveMaterialProperty now (Some (withAlpha c 0.7)) (cw_thickness wave)) None"
    using conicalWave_ReturnedD [of cs now w wave "EntityGraphic ew" w'] by auto
  then show "\<exists>P. anchorPosition cs (cw_positions wave) = Some P \<and>
           entity_orientation ew =
             headingPitchRollQuaternion cs P (frameAngles (cw_heading wave) (cw_pitch wave))"
    using conePose_SomeD(4) [OF p] by (simp add: radarEntity_def)
next
  assume "createRadarCone cs now v radar = (Returned er, v')"
  then obtain P p where
    "fromDegrees cs (element (re_position radar) 0) (element (re_position radar) 1) 0 = Some P"
    and p: "conePose cs P (re_heading radar) (re_pitch radar) (re_length radar) = Some p"
    and "er = radarEntity p (re_length radar) (re_bottomRadius radar)
            (newRadarPrimitiveMaterialProperty now (re_color radar) (re_thickness radar)) (Some P)"
    using createRadarCone_ReturnedD [of cs now v radar er v'] by auto
  then show "\<exists>P. fromDegrees cs (element (re_position radar) 0) (element (re_position radar) 1) 0 = Some P \<and>
           point_position er = Some P \<and>
           entity_orientation er =
             headingPitchRollQuaternion cs P (frameAngles (re_heading radar) (re_pitch radar))"
    using conePose_SomeD(4) [OF p] by (simp add: radarEntity_def)
next
  assume "createRadarCone_v2 cs now v radar = (Returned es, u)"
  then obtain P p where
    p: "conePose_v2 cs P (re_heading radar) (re_pitch radar) (re_length radar) = Some p"
    and "es = radarEntity p (re_length radar) (re_bottomRadius radar)
            (newRadarPrimitiveMaterialProperty now (re_color radar) (re_thickness radar)) (Some P)"
    using createRadarCone_v2_ReturnedD [of cs now v radar es u] by auto
  then show "entity_orientation es =
        headingPitchRollQuaternion cs (entity_position es)
          (frameAngles (re_heading radar) (- re_pitch radar))"
    using conePose_v2_SomeD(2) [OF p] by (simp add: radarEntity_def)
qed

theorem C3_orientation_origin_witness:
  "(\<exists>ew w'. conicalWave wgs84 0 emptyWorld (waveOptions 0 2 None) = (Returned (EntityGraphic ew), w')
       \<and> entity_orientation ew = headingPitchRollQuaternion wgs84 (Cartesian3 wgs84_a 0 0) (frameAngles 0 0))
   \<and> (\<exists>er v'. createRadarCone wgs84 0 emptyViewer (radarOptions 0 0 2) = (Returned er, v')
       \<and> entity_orientation er = headingPitchRollQuaternion wgs84 (Cartesian3 wgs84_a 0 0) (frameAngles 0 0))
   \<and> (\<exists>es u. createRadarCone_v2 wgs84 0 emptyViewer (radarOptions 0 0 2) = (Returned es, u)
       \<and> entity_orientation es = headingPitchRollQuaternion wgs84 (entity_position es) (frameAngles 0 (- 0)))"
proof -
  obtain g w' where w: "conicalWave wgs84 0 emptyWorld (waveOptions 0 2 None) = (Returned (EntityGraphic g), w')"
    using conicalWave_level [of 0 0 2] by (cases "conicalWave wgs84 0 emptyWorld (waveOptions 0 2 None)") auto
  obtain e v' where r: "createRadarCone wgs84 0 emptyViewer (radarOptions 0 0 2) = (Returned e, v')"
    using createRadarCone_level [of 0 0 2] by blast
  obtain es u where r': "createRadarCone_v2 wgs84 0 emptyViewer (radarOptions 0 0 2) = (Returned es, u)"
    using createRadarCone_v2_equator [OF conePose_v2_equator_level [OF wgs84_a_pos], where now = 0 and h = 0 and len = 2]
    by (cases "createRadarCone_v2 wgs84 0 emptyViewer (radarOptions 0 0 2)") auto
  have P: "anchorPosition wgs84 [0, 0, 0] = Some (Cartesian3 wgs84_a 0 0)"
    using anchorPosition_equator [of 0] by simp
  have P0: "fromDegrees wgs84 (Some 0) (Some 0) 0 = Some (Cartesian3 wgs84_a 0 0)"
    by (simp add: wgs84_def wgs84_fromDegrees_origin)
  note inst = C3_orientation_origin [where cs = wgs84 and now = 0 and w = emptyWorld
      and wave = "waveOptions 0 2 None" and ew = g and w' = w' and v = emptyViewer
      and radar = "radarOptions 0 0 2" and er = e and v' = v' and es = es and u = u]
  have "entity_orientation g = headingPitchRollQuaternion wgs84 (Cartesian3 wgs84_a 0 0) (frameAngles 0 0)"
    using inst w P by (simp add: waveOptions_def)
  moreover have "entity_orientation e = headingPitchRollQuaternion wgs84 (Cartesian3 wgs84_a 0 0) (frameAngles 0 0)"
    using inst r P0 by (simp add: radarOptions_fields element_def)
  moreover have "entity_orientation es = headingPitchRollQuaternion wgs84 (entity_position es) (frameAngles 0 (- 0))"
    using inst r' by (simp add: radarOptions_fields)
  ultimately show ?thesis
    using w r r' by blast
qed

text \<open>As stated the claim fails on the second \<^verbatim>\<open>createRadarCone\<close>: for the anchor
  \<^verbatim>\<open>[0, 0, 0]\<close>, heading 0, pitch 0 and length 2 the orientation is the one rooted at the
  centre, one unit south of the anchor, which is not the one rooted at the anchor.\<close>

theorem C3_createRadarCone_v2_counterexample:
  "map_option entityPose (returned (fst (createRadarCone_v2 wgs84 0 emptyViewer (radarOptions 0 0 2))))
     = Some (Cartesian3 wgs84_a 0 (- 1),
             wgs84_headingPitchRollQuaternion (Cartesian3 wgs84_a 0 (- 1)) (HeadingPitchRoll 0 0 0))
   \<and> anchorPosition wgs84 (re_position (radarOptions 0 0 2)) = Some (Cartesian3 wgs84_a 0 0)
   \<and> wgs84_headingPitchRollQuaternion (Cartesian3 wgs84_a 0 (- 1)) (HeadingPitchRoll 0 0 0)
       \<noteq> headingPitchRollQuaternion wgs84 (Cartesian3 wgs84_a 0 0)
            (frameAngles (re_heading (radarOptions 0 0 2)) (re_pitch (radarOptions 0 0 2)))"
proof -
  have "wgs84_headingPitchRollQuaternion (Cartesian3 wgs84_a 0 (- 1)) (HeadingPitchRoll 0 0 0)
      \<noteq> Rotation (Cartesian3 0 1 0) (Cartesian3 0 0 1) (Cartesian3 1 0 0)"
    by (rule up_off_equator [OF wgs84_a_pos]) simp
  then show ?thesis
    using anchorPosition_equator [of 0]
    by (simp add: createRadarCone_v2_equator [OF conePose_v2_equator_level [OF wgs84_a_pos]]
        returned_def entityPose_def radarEntity_def radarOptions_fields
        quaternion_equator_level [OF wgs84_a_pos])
qed

section \<open>The two versions of createRadarCone\<close>

lemma conePose_v2_centre:
  assumes "conePose_v2 cs v h p len = Some q"
  shows "axisDirection_v2 cs v (frameAngles h (- p)) = Some (worldDirection q)"
    and "cylinderCenter q = subtract (clone v) (multiplyByScalar (worldDirection q) (len / 2))"
  using assms
  by (auto simp: conePose_v2_def axisDirection_v2_def frameAngles_def toRadians_def Let_def
      split: option.splits)

lemma offsets_differ:
  assumes "d \<noteq> d'" and "s \<noteq> 0"
  shows "subtract (clone v) (multiplyByScalar d s) \<noteq> subtract (clone v) (multiplyByScalar d' s)"
  using assms
  by (cases d, cases d') (auto simp: subtract_def clone_def multiplyByScalar_def)

lemma axisDirection_equator_inverted:
  assumes "0 < x"
  shows "axisDirection wgs84 (Cartesian3 x 0 0) (frameAngles 0 180) = Some (Cartesian3 (- 1) 0 0)"
  by (simp add: axisDirection_def frameAngles_def toRadians_0 toRadians_180 wgs84_def
      frame_equator_pitch_pi [OF assms] UNIT_Z_def multiplyByPointAsVector_def normalize_minus_unit_x)

lemma axisDirection_v2_equator_inverted:
  assumes "0 < x"
  shows "axisDirection_v2 wgs84 (Cartesian3 x 0 0) (frameAngles 0 (- 180)) = Some (Cartesian3 0 0 1)"
proof -
  have "toRadians (- 180) = - pi"
    by (simp add: toRadians_def)
  then show ?thesis
    by (simp add: axisDirection_v2_def frameAngles_def toRadians_0 wgs84_def
        frame_equator_pitch_minus_pi [OF assms] multiplyByPointAsVector_def normalize_unit_z)
qed

text \<open>
  C4. The two versions of \<^verbatim>\<open>createRadarCone\<close> are not equivalent for nonzero pitch. The
  first (pitch as given, local z axis, quaternion at the anchor) moves the centre back along
  the image of the local z axis, the second (pitch negated, local y axis, quaternion at the
  centre) along the image of the local y axis under the negated pitch: whenever both return
  an entity, these two unit directions differ and the length is not 0, the poses (centre and
  orientation) differ. On the reference interpretation of the library this happens for an
  emitter on the equator with heading 0, pitch 180 degrees and length 2: the first version
  puts the centre one unit above the anchor, the second one unit south of it.
\<close>

theorem C4_versions_differ:
  "(createRadarCone cs now v radar = (Returned e, v') \<and>
    createRadarCone_v2 cs now v radar = (Returned es, u) \<and>
    fromDegrees cs (element (re_position radar) 0) (element (re_position radar) 1) 0 = Some P \<and>
    axisDirection cs P (frameAngles (re_heading radar) (re_pitch radar)) = Some D \<and>
    axisDirection_v2 cs P (frameAngles (re_heading radar) (- re_pitch radar)) = Some D' \<and>
    D \<noteq> D' \<and> re_length radar \<noteq> 0 \<longrightarrow>
    entityPose e \<noteq> entityPose es)
   \<and> re_pitch (radarOptions 0 180 2) \<noteq> 0
   \<and> map_option entityPose (returned (fst (createRadarCone wgs84 t emptyViewer (radarOptions 0 180 2))))
       = Some (Cartesian3 (wgs84_a + 1) 0 0,
               Rotation (Cartesian3 0 (- 1) 0) (Cartesian3 0 0 1) (Cartesian3 (- 1) 0 0))
   \<and> map_option entityPose (returned (fst (createRadarCone_v2 wgs84 t emptyViewer (radarOptions 0 180 2))))
       = Some (Cartesian3 wgs84_a 0 (- 1),
               wgs84_headingPitchRollQuaternion (Cartesian3 wgs84_a 0 (- 1)) (HeadingPitchRoll 0 (- pi) 0))
   \<and> map_option entityPose (returned (fst (createRadarCone wgs84 t emptyViewer (radarOptions 0 180 2))))
       \<noteq> map_option entityPose (returned (fst (createRadarCone_v2 wgs84 t emptyViewer (radarOptions 0 180 2))))"
proof -
  have general: "entityPose e \<noteq> entityPose es"
    if a: "createRadarCone cs now v radar = (Returned e, v') \<and>
      createRadarCone_v2 cs now v radar = (Returned es, u) \<and>
      fromDegrees cs (element (re_position radar) 0) (element (re_position radar) 1) 0 = Some P \<and>
      axisDirection cs P (frameAngles (re_heading radar) (re_pitch radar)) = Some D \<and>
      axisDirection_v2 cs P (frameAngles (re_heading radar) (- re_pitch radar)) = Some D' \<and>
      D \<noteq> D' \<and> re_length radar \<noteq> 0"
  proof -
    obtain p where p: "conePose cs P (re_heading radar) (re_pitch radar) (re_length radar) = Some p"
      and e: "e = radarEntity p (re_length radar) (re_bottomRadius radar)
            (newRadarPrimitiveMaterialProperty now (re_color radar) (re_thickness radar)) (Some P)"
      using createRadarCone_ReturnedD [of cs now v radar e v'] a by auto
    obtain q where q: "conePose_v2 cs P (re_heading radar) (re_pitch radar) (re_length radar) = Some q"
      and es: "es = radarEntity q (re_length radar) (re_bottomRadius radar)
            (newRadarPrimitiveMaterialProperty now (re_color radar) (re_thickness radar)) (Some P)"
      using createRadarCone_v2_ReturnedD [of cs now v radar es u] a by auto
    have d: "worldDirection p = D" and d': "worldDirection q = D'"
      using conePose_SomeD(2) [OF p] conePose_v2_centre(1) [OF q] a by simp_all
    have "entity_position e \<noteq> entity_position es"
      using offsets_differ [of D D' "re_length radar / 2" P] a
      by (simp add: e es radarEntity_def conePose_SomeD(3) [OF p] conePose_v2_centre(2) [OF q] d d')
    then show ?thesis
      by (auto simp: entityPose_def)
  qed
  have first: "map_option entityPose
      (returned (fst (createRadarCone wgs84 t emptyViewer (radarOptions 0 180 2))))
       = Some (Cartesian3 (wgs84_a + 1) 0 0,
               Rotation (Cartesian3 0 (- 1) 0) (Cartesian3 0 0 1) (Cartesian3 (- 1) 0 0))"
    by (simp only: createRadarCone_equator [OF conePose_equator_inverted [OF wgs84_a_pos]])
      (simp add: returned_def entityPose_def radarEntity_def)
  have second: "map_option entityPose
      (returned (fst (createRadarCone_v2 wgs84 t emptyViewer (radarOptions 0 180 2))))
       = Some (Cartesian3 wgs84_a 0 (- 1),
               wgs84_headingPitchRollQuaternion (Cartesian3 wgs84_a 0 (- 1)) (HeadingPitchRoll 0 (- pi) 0))"
    by (simp only: createRadarCone_v2_equator [OF conePose_v2_equator_inverted [OF wgs84_a_pos]])
      (simp add: returned_def entityPose_def radarEntity_def)
  show ?thesis
    using general by (simp only: first second) (simp add: radarOptions_fields)
qed

theorem C4_versions_differ_witness:
  "\<exists>e v' es u.
     createRadarCone wgs84 0 emptyViewer (radarOptions 0 180 2) = (Returned e, v')
     \<and> createRadarCone_v2 wgs84 0 emptyViewer (radarOptions 0 180 2) = (Returned es, u)
     \<and> fromDegrees wgs84 (Some 0) (Some 0) 0 = Some (Cartesian3 wgs84_a 0 0)
     \<and> axisDirection wgs84 (Cartesian3 wgs84_a 0 0) (frameAngles 0 180) = Some (Cartesian3 (- 1) 0 0)
     \<and> axisDirection_v2 wgs84 (Cartesian3 wgs84_a 0 0) (frameAngles 0 (- 180)) = Some (Cartesian3 0 0 1)
     \<and> Cartesian3 (- 1) 0 0 \<noteq> Cartesian3 0 0 1
     \<and> re_length (radarOptions 0 180 2) \<noteq> 0
     \<and> entityPose e \<noteq> entityPose es"
proof -
  obtain e v' where r: "createRadarCone wgs84 0 emptyViewer (radarOptions 0 180 2) = (Returned e, v')"
    using createRadarCone_equator [OF conePose_equator_inverted [OF wgs84_a_pos],
        where now = 0 and h = 0 and len = 2]
    by (cases "createRadarCone wgs84 0 emptyViewer (radarOptions 0 180 2)") auto
  obtain es u where r2: "createRadarCone_v2 wgs84 0 emptyViewer (radarOptions 0 180 2) = (Returned es, u)"
    using createRadarCone_v2_equator [OF conePose_v2_equator_inverted [OF wgs84_a_pos],
        where now = 0 and h = 0 and len = 2]
    by (cases "createRadarCone_v2 wgs84 0 emptyViewer (radarOptions 0 180 2)") auto
  have P0: "fromDegrees wgs84 (Some 0) (Some 0) 0 = Some (Cartesian3 wgs84_a 0 0)"
    by (simp add: wgs84_def wgs84_fromDegrees_origin)
  have D: "axisDirection wgs84 (Cartesian3 wgs84_a 0 0) (frameAngles 0 180) = Some (Cartesian3 (- 1) 0 0)"
    by (rule axisDirection_equator_inverted [OF wgs84_a_pos])
  have D': "axisDirection_v2 wgs84 (Cartesian3 wgs84_a 0 0) (frameAngles 0 (- 180)) = Some (Cartesian3 0 0 1)"
    by (rule axisDirection_v2_equator_inverted [OF wgs84_a_pos])
  have "entityPose e \<noteq> entityPose es"
    using C4_versions_differ [where cs = wgs84 and now = 0 and v = emptyViewer
        and radar = "radarOptions 0 180 2" and e = e and v' = v' and es = es and u = u
        and P = "Cartesian3 wgs84_a 0 0" and D = "Cartesian3 (- 1) 0 0" and D' = "Cartesian3 0 0 1"]
      r r2 P0 D D'
    by (simp add: radarOptions_fields element_def)
  then show ?thesis
    using r r2 P0 D D' by (auto simp: radarOptions_fields)
qed

section \<open>The outcomes of the registry creators\<close>

lemma fenceFlowEffect_outcome:
  "(\<exists>m. fenceFlowEffect cs w options = (Null m, w)) \<or>
   (\<exists>viewer ps primitive.
      getMap w = Some viewer \<and> getGraphicMap w (ff_id options) = None \<and>
      ff_positions options = Some ps \<and> 2 \<le> length ps \<and>
      flamePrimitive cs options ps (or_number (ff_maxHeight options) 100)
        (or_number (ff_speed options) 1.0) = Some primitive \<and>
      \<not> addThrows cs primitive \<and>
      fenceFlowEffect cs w options =
        (Returned (PrimitiveGraphic primitive), addPrimitive (ff_id options) primitive viewer w))"
  by (auto simp: fenceFlowEffect_def Let_def split: option.splits)

lemma fenceFlowEffect_v2_outcome:
  "(\<exists>m. fenceFlowEffect_v2 cs w options = (Null m, w)) \<or>
   (\<exists>viewer ps primitive.
      getMap w = Some viewer \<and> flowPrimitive cs options ps = Some primitive \<and>
      addThrows cs primitive \<and> removePrimitive cs primitive (primitives viewer) = None \<and>
      fenceFlowEffect_v2 cs w options = (Thrown, w)) \<or>
   (\<exists>viewer ps primitive remaining.
      getMap w = Some viewer \<and> flowPrimitive cs options ps = Some primitive \<and>
      addThrows cs primitive \<and> removePrimitive cs primitive (primitives viewer) = Some remaining \<and>
      fenceFlowEffect_v2 cs w options =
        (Null CreationFailed, w\<lparr>getMap := Some (viewer\<lparr>primitives := remaining\<rparr>)\<rparr>)) \<or>
   (\<exists>viewer ps primitive.
      getMap w = Some viewer \<and> getGraphicMap w (ff_id options) = None \<and>
      ff_positions options = Some ps \<and> 2 \<le> length ps \<and>
      flowPrimitive cs options ps = Some primitive \<and>
      \<not> addThrows cs primitive \<and>
      fenceFlowEffect_v2 cs w options =
        (Returned (PrimitiveGraphic primitive), addPrimitive (ff_id options) primitive viewer w))"
  by (auto simp: fenceFlowEffect_v2_def Let_def split: option.splits)

lemma conicalEffect_outcome:
  "(\<exists>m. conicalEffect cs w options = (Null m, w)) \<or>
   (\<exists>viewer lng lat height rest primitive.
      getMap w = Some viewer \<and> getGraphicMap w (ce_id options) = None \<and>
      ce_positions options = Some (lng # lat # height # rest) \<and>
      conicalPrimitive cs options lng lat height = Some primitive \<and>
      \<not> addThrows cs primitive \<and>
      conicalEffect cs w options =
        (Returned (PrimitiveGraphic primitive), addPrimitive (ce_id options) primitive viewer w))"
  by (auto simp: conicalEffect_def Let_def split: option.splits list.splits)

lemma conicalWave_outcome:
  "(\<exists>m. conicalWave cs now w options = (Null m, w)) \<or>
   (getMap w \<noteq> None \<and> conicalWave cs now w options = (Thrown, registerRadarMaterial w)) \<or>
   (\<exists>viewer e.
      getMap w = Some viewer \<and> getGraphicMap w (cw_id options) = None \<and>
      conicalWave cs now w options =
        (Returned (EntityGraphic e),
         setGraphicMap (cw_id options) (EntityGraphic e)
           ((registerRadarMaterial w)\<lparr>getMap := Some (viewer\<lparr>entities := entities viewer @ [e]\<rparr>)\<rparr>)))"
  by (auto simp: conicalWave_def Let_def split: option.splits)

lemma addPrimitive_lookup:
  "getGraphicMap (addPrimitive i primitive viewer w) i = Some (PrimitiveGraphic primitive)"
  "getMap (addPrimitive i primitive viewer w) = Some (viewer\<lparr>primitives := primitives viewer @ [primitive]\<rparr>)"
  by (simp_all add: addPrimitive_def setGraphicMap_def)

lemma registerRadarMaterial_registry:
  "getGraphicMap (registerRadarMaterial w) = getGraphicMap w"
  "getMap (registerRadarMaterial w) = getMap w"
  by (simp_all add: registerRadarMaterial_def)

lemma exists_conicalWave:
  assumes "getGraphicMap w (cw_id options) = Some h"
  shows "conicalWave cs now w options = (Null (if getMap w = None then MapMissing else EffectExists), w)"
  using assms by (simp add: conicalWave_def split: option.splits)

lemma exists_fenceFlowEffect:
  assumes "getGraphicMap w (ff_id options) = Some h"
  shows "fenceFlowEffect cs w options = (Null (if getMap w = None then MapMissing else EffectExists), w)"
    and "fenceFlowEffect_v2 cs w options = (Null (if getMap w = None then MapMissing else EffectExists), w)"
  using assms by (simp_all add: fenceFlowEffect_def fenceFlowEffect_v2_def split: option.splits)

lemma exists_conicalEffect:
  assumes "getGraphicMap w (ce_id options) = Some h"
  shows "conicalEffect cs w options = (Null (if getMap w = None then MapMissing else EffectExists), w)"
  using assms by (simp add: conicalEffect_def split: option.splits)

section \<open>The registry creators on the concrete inputs\<close>

lemma wgs84_fields:
  "fromDegrees wgs84 (Some a) (Some b) h = Some (wgs84_fromDegrees a b h)"
  "fromDegreesArrayHeights wgs84 xs = (if length xs < 3 then None else wgs84_arrayHeights xs)"
  "headingPitchRollQuaternion wgs84 = wgs84_headingPitchRollQuaternion"
  "fromCssColorString wgs84 = hex_fromCssColorString"
  "geometryThrows wgs84 g = False"
  "materialThrows wgs84 f = False"
  "primitiveThrows wgs84 p = False"
  "addThrows wgs84 p = False"
  "removePrimitive wgs84 p ps = Some ps"
  by (simp_all add: wgs84_def)

lemma fenceOptions_fields:
  "ff_id (fenceOptions ps mh sp) = ''fence''"
  "ff_positions (fenceOptions ps mh sp) = Some ps"
  "ff_color (fenceOptions ps mh sp) = None"
  "ff_speed (fenceOptions ps mh sp) = sp"
  "ff_width (fenceOptions ps mh sp) = None"
  "ff_maxHeight (fenceOptions ps mh sp) = mh"
  by (simp_all add: fenceOptions_def)

lemma coordinates_sample:
  "coordinates [[0, 0, 0], [1, 0]] = [[Some 0, Some 0, Some 0], [Some 1, Some 0, Some 0]]"
  by (simp add: coordinates_def element_def or_number_def)

lemma hex_colors:
  "hex_fromCssColorString ''#FF6600'' = Some (Color 1 (102 / 255) 0 1)"
  "hex_fromCssColorString ''#00FFFF'' = Some (Color 0 1 1 1)"
  "hex_fromCssColorString ''notacolor'' = None"
  by (simp_all add: hex_fromCssColorString_def hexByte_def hexDigit_def)

lemma flamePrimitive_sample:
  "flamePrimitive wgs84 (fenceOptions [[0, 0, 0], [1, 0]] mh sp) [[0, 0, 0], [1, 0]] H S =
     Some \<lparr>geometry = WallGeometry [wgs84_fromDegrees 0 0 0, wgs84_fromDegrees 1 0 0] [0, 0] [H, H],
           modelMatrix = [],
           appearance_material =
             \<lparr>uniforms = [(''u_color'', UColor (Color 1 (102 / 255) 0 0.9)), (''u_speed'', UNumber S),
                          (''u_maxHeight'', UNumber H), (''u_time'', UNumber 0)],
              source = FlameSource\<rparr>,
           appearance_translucent = True, appearance_closed = False, asynchronous = False\<rparr>"
  by (simp add: flamePrimitive_def coordinates_sample wgs84_fields fenceOptions_fields or_string_def
      hex_colors withAlpha_def Let_def)

lemma flowPrimitive_sample:
  "flowPrimitive wgs84 (fenceOptions [[0, 0, 0], [1, 0]] mh sp) [[0, 0, 0], [1, 0]] =
     Some \<lparr>geometry = WallGeometry [wgs84_fromDegrees 0 0 0, wgs84_fromDegrees 1 0 0] [0, 0] [100, 100],
           modelMatrix = [],
           appearance_material =
             \<lparr>uniforms = [(''u_color'', UColor (Color 0 1 1 0.8)), (''u_speed'', UNumber (or_number sp 1)),
                          (''u_width'', UNumber 0.1)],
              source = FlowSource\<rparr>,
           appearance_translucent = True, appearance_closed = False, asynchronous = False\<rparr>"
  by (simp add: flowPrimitive_def coordinates_sample wgs84_fields fenceOptions_fields or_string_def
      or_number_def hex_colors withAlpha_def Let_def)

lemma fenceFlowEffect_sample:
  "\<exists>primitive.
     flamePrimitive wgs84 (fenceOptions [[0, 0, 0], [1, 0]] mh sp) [[0, 0, 0], [1, 0]]
       (or_number mh 100) (or_number sp 1) = Some primitive \<and>
     fenceFlowEffect wgs84 emptyWorld (fenceOptions [[0, 0, 0], [1, 0]] mh sp) =
       (Returned (PrimitiveGraphic primitive), addPrimitive ''fence'' primitive emptyViewer emptyWorld)"
  by (simp add: fenceFlowEffect_def emptyWorld_def emptyViewer_def fenceOptions_fields
      flamePrimitive_sample wgs84_fields Let_def)

lemma fenceFlowEffect_v2_sample:
  "\<exists>primitive.
     fenceFlowEffect_v2 wgs84 emptyWorld (fenceOptions [[0, 0, 0], [1, 0]] mh sp) =
       (Returned (PrimitiveGraphic primitive), addPrimitive ''fence'' primitive emptyViewer emptyWorld)"
  by (simp add: fenceFlowEffect_v2_def emptyWorld_def emptyViewer_def fenceOptions_fields
      flowPrimitive_sample wgs84_fields Let_def)

lemma conicalEffect_sample:
  "\<exists>primitive.
     conicalEffect wgs84 emptyWorld coneOptions =
       (Returned (PrimitiveGraphic primitive), addPrimitive ''cone'' primitive emptyViewer emptyWorld)"
  by (simp add: conicalEffect_def conicalPrimitive_def emptyWorld_def emptyViewer_def coneOptions_def
      wgs84_fields or_string_def hex_colors Let_def)

lemma conicalWave_sample:
  "\<exists>g u. conicalWave wgs84 now emptyWorld (waveOptions 0 len None) = (Returned g, u)"
  using conicalWave_level [of 0 now len]
  by (cases "conicalWave wgs84 now emptyWorld (waveOptions 0 len None)") auto

section \<open>Duplicate identifiers\<close>

text \<open>
  C5. In every registry state in which an identifier has a live entry, a call of
  \<^verbatim>\<open>conicalWave\<close>, \<^verbatim>\<open>fenceFlowEffect\<close> (either version) or \<^verbatim>\<open>conicalEffect\<close> with that
  identifier returns \<^verbatim>\<open>null\<close> (after the line "the map does not exist" when there is no map,
  "the effect exists" otherwise) and leaves the whole state as it was: the entry is not
  replaced and none is added. The registry being a dictionary, its identifiers are distinct
  and the identifier still has exactly its one entry. In particular a creator called a second
  time after it returned a handle returns \<^verbatim>\<open>null\<close> with "the effect exists", and the handle
  of the first call stays.
\<close>

theorem C5_duplicate_id:
  assumes "getGraphicMap w i = Some h"
  shows "(cw_id wave = i \<longrightarrow>
            conicalWave cs now w wave = (Null (if getMap w = None then MapMissing else EffectExists), w))
       \<and> (ff_id fence = i \<longrightarrow>
            fenceFlowEffect cs w fence = (Null (if getMap w = None then MapMissing else EffectExists), w)
          \<and> fenceFlowEffect_v2 cs w fence = (Null (if getMap w = None then MapMissing else EffectExists), w))
       \<and> (ce_id cone = i \<longrightarrow>
            conicalEffect cs w cone = (Null (if getMap w = None then MapMissing else EffectExists), w))
       \<and> (conicalWave cs now u wave = (Returned g, u') \<longrightarrow>
            conicalWave cs now' u' wave = (Null EffectExists, u') \<and> getGraphicMap u' (cw_id wave) = Some g)
       \<and> (fenceFlowEffect cs u fence = (Returned g, u') \<longrightarrow>
            fenceFlowEffect cs u' fence = (Null EffectExists, u') \<and> getGraphicMap u' (ff_id fence) = Some g)
       \<and> (fenceFlowEffect_v2 cs u fence = (Returned g, u') \<longrightarrow>
            fenceFlowEffect_v2 cs u' fence = (Null EffectExists, u') \<and> getGraphicMap u' (ff_id fence) = Some g)
       \<and> (conicalEffect cs u cone = (Returned g, u') \<longrightarrow>
            conicalEffect cs u' cone = (Null EffectExists, u') \<and> getGraphicMap u' (ce_id cone) = Some g)"
proof (intro conjI impI)
  assume "cw_id wave = i"
  with assms show "conicalWave cs now w wave = (Null (if getMap w = None then MapMissing else EffectExists), w)"
    by (simp add: exists_conicalWave)
next
  assume "ff_id fence = i"
  with assms show "fenceFlowEffect cs w fence = (Null (if getMap w = None then MapMissing else EffectExists), w)"
    and "fenceFlowEffect_v2 cs w fence = (Null (if getMap w = None then MapMissing else EffectExists), w)"
    by (simp_all add: exists_fenceFlowEffect)
next
  assume "ce_id cone = i"
  with assms show "conicalEffect cs w cone = (Null (if getMap w = None then MapMissing else EffectExists), w)"
    by (simp add: exists_conicalEffect)
next
  assume r: "conicalWave cs now u wave = (Returned g, u')"
  then have stored: "getGraphicMap u' (cw_id wave) = Some g" and m: "getMap u' \<noteq> None"
    using conicalWave_outcome [of cs now u wave] by (auto simp: setGraphicMap_def)
  show "getGraphicMap u' (cw_id wave) = Some g"
    by (rule stored)
  show "conicalWave cs now' u' wave = (Null EffectExists, u')"
    using exists_conicalWave [OF stored, of cs now'] m by simp
next
  assume r: "fenceFlowEffect cs u fence = (Returned g, u')"
  then have stored: "getGraphicMap u' (ff_id fence) = Some g" and m: "getMap u' \<noteq> None"
    using fenceFlowEffect_outcome [of cs u fence] by (auto simp: addPrimitive_lookup)
  show "getGraphicMap u' (ff_id fence) = Some g"
    by (rule stored)
  show "fenceFlowEffect cs u' fence = (Null EffectExists, u')"
    using exists_fenceFlowEffect(1) [OF stored, of cs] m by simp
next
  assume r: "fenceFlowEffect_v2 cs u fence = (Returned g, u')"
  then have stored: "getGraphicMap u' (ff_id fence) = Some g" and m: "getMap u' \<noteq> None"
    using fenceFlowEffect_v2_outcome [of cs u fence] by (auto simp: addPrimitive_lookup)
  show "getGraphicMap u' (ff_id fence) = Some g"
    by (rule stored)
  show "fenceFlowEffect_v2 cs u' fence = (Null EffectExists, u')"
    using exists_fenceFlowEffect(2) [OF stored, of cs] m by simp
next
  assume r: "conicalEffect cs u cone = (Returned g, u')"
  then have stored: "getGraphicMap u' (ce_id cone) = Some g" and m: "getMap u' \<noteq> None"
    using conicalEffect_outcome [of cs u cone] by (auto simp: addPrimitive_lookup)
  show "getGraphicMap u' (ce_id cone) = Some g"
    by (rule stored)
  show "conicalEffect cs u' cone = (Null EffectExists, u')"
    using exists_conicalEffect [OF stored, of cs] m by simp
qed

theorem C5_duplicate_id_witness:
  "(\<exists>g u. fenceFlowEffect wgs84 emptyWorld (fenceOptions [[0, 0, 0], [1, 0]] None None) = (Returned g, u)
      \<and> getGraphicMap u ''fence'' = Some g
      \<and> conicalWave wgs84 0 u ((waveOptions 0 2 None)\<lparr>cw_id := ''fence''\<rparr>) = (Null EffectExists, u)
      \<and> fenceFlowEffect wgs84 u (fenceOptions [[0, 0, 0], [1, 0]] None None) = (Null EffectExists, u)
      \<and> fenceFlowEffect_v2 wgs84 u (fenceOptions [[0, 0, 0], [1, 0]] None None) = (Null EffectExists, u)
      \<and> conicalEffect wgs84 u (coneOptions\<lparr>ce_id := ''fence''\<rparr>) = (Null EffectExists, u))
   \<and> (\<exists>g u. conicalWave wgs84 0 emptyWorld (waveOptions 0 2 None) = (Returned g, u)
      \<and> conicalWave wgs84 1 u (waveOptions 0 2 None) = (Null EffectExists, u)
      \<and> getGraphicMap u ''wave'' = Some g)
   \<and> (\<exists>g u. fenceFlowEffect_v2 wgs84 emptyWorld (fenceOptions [[0, 0, 0], [1, 0]] None None) = (Returned g, u)
      \<and> fenceFlowEffect_v2 wgs84 u (fenceOptions [[0, 0, 0], [1, 0]] None None) = (Null EffectExists, u)
      \<and> getGraphicMap u ''fence'' = Some g)
   \<and> (\<exists>g u. conicalEffect wgs84 emptyWorld coneOptions = (Returned g, u)
      \<and> conicalEffect wgs84 u coneOptions = (Null EffectExists, u)
      \<and> getGraphicMap u ''cone'' = Some g)"
proof -
  let ?F = "fenceOptions [[0, 0, 0], [1, 0]] None None"
  let ?W = "waveOptions 0 2 None"
  obtain p where f: "fenceFlowEffect wgs84 emptyWorld ?F =
      (Returned (PrimitiveGraphic p), addPrimitive ''fence'' p emptyViewer emptyWorld)"
    using fenceFlowEffect_sample [of None None] by blast
  let ?u = "addPrimitive ''fence'' p emptyViewer emptyWorld"
  have stored: "getGraphicMap ?u ''fence'' = Some (PrimitiveGraphic p)" and m: "getMap ?u \<noteq> None"
    by (simp_all add: addPrimitive_lookup)
  note dup = C5_duplicate_id [OF stored, where cs = wgs84 and fence = ?F
      and wave = "?W\<lparr>cw_id := ''fence''\<rparr>" and cone = "coneOptions\<lparr>ce_id := ''fence''\<rparr>"
      and now = 0 and u = emptyWorld and u' = ?u and g = "PrimitiveGraphic p"]
  have first: "conicalWave wgs84 0 ?u (?W\<lparr>cw_id := ''fence''\<rparr>) = (Null EffectExists, ?u)
      \<and> fenceFlowEffect wgs84 ?u ?F = (Null EffectExists, ?u)
      \<and> fenceFlowEffect_v2 wgs84 ?u ?F = (Null EffectExists, ?u)
      \<and> conicalEffect wgs84 ?u (coneOptions\<lparr>ce_id := ''fence''\<rparr>) = (Null EffectExists, ?u)"
    using dup m by (simp add: fenceOptions_fields)
  obtain g u where wv: "conicalWave wgs84 0 emptyWorld ?W = (Returned g, u)"
    using conicalWave_sample [of 0 2] by blast
  have second: "conicalWave wgs84 1 u ?W = (Null EffectExists, u) \<and> getGraphicMap u ''wave'' = Some g"
    using C5_duplicate_id [OF stored, where cs = wgs84 and wave = ?W and now = 0 and now' = 1
        and u = emptyWorld and u' = u and g = g] wv
    by (simp add: waveOptions_def)
  obtain q where f2: "fenceFlowEffect_v2 wgs84 emptyWorld ?F =
      (Returned (PrimitiveGraphic q), addPrimitive ''fence'' q emptyViewer emptyWorld)"
    using fenceFlowEffect_v2_sample [of None None] by blast
  have third: "fenceFlowEffect_v2 wgs84 (addPrimitive ''fence'' q emptyViewer emptyWorld) ?F =
        (Null EffectExists, addPrimitive ''fence'' q emptyViewer emptyWorld)
      \<and> getGraphicMap (addPrimitive ''fence'' q emptyViewer emptyWorld) ''fence'' = Some (PrimitiveGraphic q)"
    using C5_duplicate_id [OF stored, where cs = wgs84 and fence = ?F and u = emptyWorld
        and u' = "addPrimitive ''fence'' q emptyViewer emptyWorld" and g = "PrimitiveGraphic q"] f2
    by (simp add: fenceOptions_fields)
  obtain c where ce: "conicalEffect wgs84 emptyWorld coneOptions =
      (Returned (PrimitiveGraphic c), addPrimitive ''cone'' c emptyViewer emptyWorld)"
    using conicalEffect_sample by blast
  have fourth: "conicalEffect wgs84 (addPrimitive ''cone'' c emptyViewer emptyWorld) coneOptions =
        (Null EffectExists, addPrimitive ''cone'' c emptyViewer emptyWorld)
      \<and> getGraphicMap (addPrimitive ''cone'' c emptyViewer emptyWorld) ''cone'' = Some (PrimitiveGraphic c)"
    using C5_duplicate_id [OF stored, where cs = wgs84 and cone = coneOptions and u = emptyWorld
        and u' = "addPrimitive ''cone'' c emptyViewer emptyWorld" and g = "PrimitiveGraphic c"] ce
    by (simp add: coneOptions_def)
  show ?thesis
    using f stored first wv second f2 third ce fourth by blast
qed

section \<open>Failed creations\<close>

lemma failed_creation_registry:
  "fst (fenceFlowEffect cs w fence) \<noteq> Thrown
   \<and> fst (conicalEffect cs w cone) \<noteq> Thrown
   \<and> (returned (fst (fenceFlowEffect cs w fence)) = None \<longrightarrow> snd (fenceFlowEffect cs w fence) = w)
   \<and> (returned (fst (conicalEffect cs w cone)) = None \<longrightarrow> snd (conicalEffect cs w cone) = w)
   \<and> (returned (fst (fenceFlowEffect_v2 cs w fence)) = None \<longrightarrow>
        getGraphicMap (snd (fenceFlowEffect_v2 cs w fence)) = getGraphicMap w)
   \<and> (returned (fst (conicalWave cs now w wave)) = None \<longrightarrow>
        getGraphicMap (snd (conicalWave cs now w wave)) = getGraphicMap w \<and>
        getMap (snd (conicalWave cs now w wave)) = getMap w)"
proof (intro conjI impI)
  show "fst (fenceFlowEffect cs w fence) \<noteq> Thrown"
    using fenceFlowEffect_outcome [of cs w fence] by auto
  show "fst (conicalEffect cs w cone) \<noteq> Thrown"
    using conicalEffect_outcome [of cs w cone] by auto
next
  assume "returned (fst (fenceFlowEffect cs w fence)) = None"
  then show "snd (fenceFlowEffect cs w fence) = w"
    using fenceFlowEffect_outcome [of cs w fence] by (auto simp: returned_def)
next
  assume "returned (fst (conicalEffect cs w cone)) = None"
  then show "snd (conicalEffect cs w cone) = w"
    using conicalEffect_outcome [of cs w cone] by (auto simp: returned_def)
next
  assume "returned (fst (fenceFlowEffect_v2 cs w fence)) = None"
  then show "getGraphicMap (snd (fenceFlowEffect_v2 cs w fence)) = getGraphicMap w"
    using fenceFlowEffect_v2_outcome [of cs w fence] by (auto simp: returned_def)
next
  assume a: "returned (fst (conicalWave cs now w wave)) = None"
  then show "getGraphicMap (snd (conicalWave cs now w wave)) = getGraphicMap w"
    using conicalWave_outcome [of cs now w wave]
    by (auto simp: returned_def registerRadarMaterial_registry)
  from a show "getMap (snd (conicalWave cs now w wave)) = getMap w"
    using conicalWave_outcome [of cs now w wave]
    by (auto simp: returned_def registerRadarMaterial_registry)
qed

text \<open>When \<^verbatim>\<open>primitives.add\<close> raises in the flow version and the removal in its
  \<^verbatim>\<open>catch\<close> raises too, the exception leaves the function.\<close>

lemma flow_removal_raises:
  assumes "getMap w = Some viewer" and "getGraphicMap w (ff_id fence) = None"
    and "ff_positions fence = Some ps" and "2 \<le> length ps"
    and "flowPrimitive cs fence ps = Some primitive"
    and "addThrows cs primitive"
    and "removePrimitive cs primitive (primitives viewer) = None"
  shows "fenceFlowEffect_v2 cs w fence = (Thrown, w)"
  using assms by (simp add: fenceFlowEffect_v2_def)

lemma unreadable_color_fence:
  "fenceFlowEffect wgs84 emptyWorld ((fenceOptions [[0, 0, 0], [1, 0]] None None)\<lparr>ff_color := Some ''notacolor''\<rparr>)
     = (Null CreationFailed, emptyWorld)"
  "fenceFlowEffect_v2 wgs84 emptyWorld ((fenceOptions [[0, 0, 0], [1, 0]] None None)\<lparr>ff_color := Some ''notacolor''\<rparr>)
     = (Null CreationFailed, emptyWorld)"
  by (simp_all add: fenceFlowEffect_def fenceFlowEffect_v2_def flamePrimitive_def flowPrimitive_def
      emptyWorld_def fenceOptions_def coordinates_sample wgs84_fields or_string_def hex_colors Let_def)

lemma unreadable_color_cone:
  "conicalEffect wgs84 emptyWorld (coneOptions\<lparr>ce_color := Some ''notacolor''\<rparr>)
     = (Null CreationFailed, emptyWorld)"
  by (simp add: conicalEffect_def conicalPrimitive_def emptyWorld_def coneOptions_def
      wgs84_fields or_string_def hex_colors Let_def)

lemma unreadable_color_wave:
  "conicalWave wgs84 now emptyWorld (waveOptions 0 len (Some ''notacolor''))
     = (Thrown, emptyWorld\<lparr>radarPrimitiveType := True\<rparr>)"
  by (simp add: conicalWave_def emptyWorld_def waveOptions_def element_def wgs84_fields
      wgs84_fromDegrees_origin conePose_equator_level [OF wgs84_a_pos] or_string_def hex_colors
      registerRadarMaterial_def Let_def)

lemma destroyed_scene_fence:
  "fenceFlowEffect (wgs84\<lparr>addThrows := \<lambda>p. True, removePrimitive := \<lambda>p ps. None\<rparr>) emptyWorld
     (fenceOptions [[0, 0, 0], [1, 0]] None None) = (Null CreationFailed, emptyWorld)"
  "fenceFlowEffect_v2 (wgs84\<lparr>addThrows := \<lambda>p. True, removePrimitive := \<lambda>p ps. None\<rparr>) emptyWorld
     (fenceOptions [[0, 0, 0], [1, 0]] None None) = (Thrown, emptyWorld)"
  by (simp_all add: fenceFlowEffect_def fenceFlowEffect_v2_def flamePrimitive_def flowPrimitive_def
      emptyWorld_def fenceOptions_def coordinates_sample wgs84_fields or_string_def or_number_def
      hex_colors Let_def)

text \<open>
  C6. A creation that fails at any point is to return a failure value and leave the registry
  as it was. The code at two failing inputs, both on an existing map and an empty registry.
  With a colour string the library cannot read, \<^verbatim>\<open>conicalWave\<close>, which has no \<^verbatim>\<open>try\<close>, lets the
  exception of \<^verbatim>\<open>color.withAlpha\<close> escape instead of returning \<^verbatim>\<open>null\<close> (its registry and scene
  stay empty; the sweep material is registered); on the same failure both versions of
  \<^verbatim>\<open>fenceFlowEffect\<close> and \<^verbatim>\<open>conicalEffect\<close> return \<^verbatim>\<open>null\<close> and leave the state as it was. With
  a scene whose collection of primitives raises on every addition and every removal, the flow
  version of \<^verbatim>\<open>fenceFlowEffect\<close> lets the exception of the removal in its \<^verbatim>\<open>catch\<close> escape (the
  state stays as it was), where the flame version returns \<^verbatim>\<open>null\<close>.
\<close>

theorem C6_exception_escapes:
  "fromCssColorString wgs84 ''notacolor'' = None
   \<and> conicalWave wgs84 0 emptyWorld (waveOptions 0 2 (Some ''notacolor''))
       = (Thrown, emptyWorld\<lparr>radarPrimitiveType := True\<rparr>)
   \<and> fenceFlowEffect wgs84 emptyWorld
       ((fenceOptions [[0, 0, 0], [1, 0]] None None)\<lparr>ff_color := Some ''notacolor''\<rparr>)
       = (Null CreationFailed, emptyWorld)
   \<and> fenceFlowEffect_v2 wgs84 emptyWorld
       ((fenceOptions [[0, 0, 0], [1, 0]] None None)\<lparr>ff_color := Some ''notacolor''\<rparr>)
       = (Null CreationFailed, emptyWorld)
   \<and> conicalEffect wgs84 emptyWorld (coneOptions\<lparr>ce_color := Some ''notacolor''\<rparr>)
       = (Null CreationFailed, emptyWorld)
   \<and> fenceFlowEffect_v2 (wgs84\<lparr>addThrows := \<lambda>p. True, removePrimitive := \<lambda>p ps. None\<rparr>) emptyWorld
       (fenceOptions [[0, 0, 0], [1, 0]] None None) = (Thrown, emptyWorld)
   \<and> fenceFlowEffect (wgs84\<lparr>addThrows := \<lambda>p. True, removePrimitive := \<lambda>p ps. None\<rparr>) emptyWorld
       (fenceOptions [[0, 0, 0], [1, 0]] None None) = (Null CreationFailed, emptyWorld)"
  by (simp add: unreadable_color_fence unreadable_color_cone unreadable_color_wave wgs84_fields
      hex_colors destroyed_scene_fence)

section \<open>The vertex count of a wall\<close>

lemma one_vertex:
  assumes "ff_positions fence = Some [p]"
  shows "\<exists>m. fenceFlowEffect cs w fence = (Null m, w) \<and> fenceFlowEffect_v2 cs w fence = (Null m, w)"
    and "getMap w \<noteq> None \<Longrightarrow> getGraphicMap w (ff_id fence) = None \<Longrightarrow>
      fenceFlowEffect cs w fence = (Null NeedTwoPoints, w) \<and>
      fenceFlowEffect_v2 cs w fence = (Null NeedTwoPoints, w)"
  using assms
  by (auto simp: fenceFlowEffect_def fenceFlowEffect_v2_def split: option.splits)

lemma two_vertices_flame:
  assumes "ff_positions fence = Some [p, q]"
    and "getMap w = Some viewer" and "getGraphicMap w (ff_id fence) = None"
    and "fromDegreesArrayHeights cs
          [element p 0, element p 1, Some (or_number (element p 2) 0),
           element q 0, element q 1, Some (or_number (element q 2) 0)] = Some cartesians"
    and "fromCssColorString cs (or_string (ff_color fence) ''#FF6600'') = Some c"
    and "primitive =
          \<lparr>geometry = WallGeometry cartesians [0, 0]
             [or_number (ff_maxHeight fence) 100, or_number (ff_maxHeight fence) 100],
           modelMatrix = [],
           appearance_material =
             \<lparr>uniforms =
                [(''u_color'', UColor (withAlpha c 0.9)),
                 (''u_speed'', UNumber (or_number (ff_speed fence) 1)),
                 (''u_maxHeight'', UNumber (or_number (ff_maxHeight fence) 100)),
                 (''u_time'', UNumber 0)],
              source = FlameSource\<rparr>,
           appearance_translucent = True, appearance_closed = False, asynchronous = False\<rparr>"
    and "\<not> geometryThrows cs (geometry primitive)"
    and "\<not> materialThrows cs (appearance_material primitive)"
    and "\<not> primitiveThrows cs primitive" and "\<not> addThrows cs primitive"
  shows "fenceFlowEffect cs w fence =
      (Returned (PrimitiveGraphic primitive),
       w\<lparr>getMap := Some (viewer\<lparr>primitives := primitives viewer @ [primitive]\<rparr>),
         getGraphicMap := (getGraphicMap w)(ff_id fence \<mapsto> PrimitiveGraphic primitive)\<rparr>)"
  using assms
  by (simp add: fenceFlowEffect_def flamePrimitive_def coordinates_def addPrimitive_def
      setGraphicMap_def Let_def)

lemma two_vertices_flow:
  assumes "ff_positions fence = Some [p, q]"
    and "getMap w = Some viewer" and "getGraphicMap w (ff_id fence) = None"
    and "fromDegreesArrayHeights cs
          [element p 0, element p 1, Some (or_number (element p 2) 0),
           element q 0, element q 1, Some (or_number (element q 2) 0)] = Some cartesians"
    and "fromCssColorString cs (or_string (ff_color fence) ''#00FFFF'') = Some c"
    and "primitive =
          \<lparr>geometry = WallGeometry cartesians [0, 0] [100, 100],
           modelMatrix = [],
           appearance_material =
             \<lparr>uniforms =
                [(''u_color'', UColor (withAlpha c 0.8)),
                 (''u_speed'', UNumber (or_number (ff_speed fence) 1)),
                 (''u_width'', UNumber (or_number (ff_width fence) 0.1))],
              source = FlowSource\<rparr>,
           appearance_translucent = True, appearance_closed = False, asynchronous = False\<rparr>"
    and "\<not> geometryThrows cs (geometry primitive)"
    and "\<not> materialThrows cs (appearance_material primitive)"
    and "\<not> primitiveThrows cs primitive" and "\<not> addThrows cs primitive"
  shows "fenceFlowEffect_v2 cs w fence =
      (Returned (PrimitiveGraphic primitive),
       w\<lparr>getMap := Some (viewer\<lparr>primitives := primitives viewer @ [primitive]\<rparr>),
         getGraphicMap := (getGraphicMap w)(ff_id fence \<mapsto> PrimitiveGraphic primitive)\<rparr>)"
  using assms
  by (simp add: fenceFlowEffect_v2_def flowPrimitive_def coordinates_def addPrimitive_def
      setGraphicMap_def Let_def)

text \<open>
  C7. A wall with one vertex is rejected by both versions of \<^verbatim>\<open>fenceFlowEffect\<close>: in every
  state the call returns \<^verbatim>\<open>null\<close> and changes nothing, so no primitive is created or stored,
  and when the map exists and the identifier is free the rejection is the one of the vertex
  count ("a fence needs at least two points", the invalid specification). A wall with two
  vertices succeeds when the map exists, the identifier is free, the library converts the six
  coordinates and reads the colour, and it accepts the wall geometry, the material, the
  primitive of this call and its addition to the scene: the call returns that primitive, and
  the state afterwards is the state before with the primitive appended to the primitives of
  the scene and stored in the registry under the identifier, nothing else changed.
\<close>

theorem C7_vertex_count:
  "(ff_positions fence = Some [p] \<longrightarrow>
      (\<exists>m. fenceFlowEffect cs w fence = (Null m, w) \<and> fenceFlowEffect_v2 cs w fence = (Null m, w))
      \<and> (getMap w \<noteq> None \<and> getGraphicMap w (ff_id fence) = None \<longrightarrow>
           fenceFlowEffect cs w fence = (Null NeedTwoPoints, w) \<and>
           fenceFlowEffect_v2 cs w fence = (Null NeedTwoPoints, w)))
   \<and> (ff_positions fence = Some [p, q] \<and> getMap w = Some viewer \<and> getGraphicMap w (ff_id fence) = None \<and>
      fromDegreesArrayHeights cs
        [element p 0, element p 1, Some (or_number (element p 2) 0),
         element q 0, element q 1, Some (or_number (element q 2) 0)] = Some cartesians \<and>
      fromCssColorString cs (or_string (ff_color fence) ''#FF6600'') = Some c \<and>
      flame =
        \<lparr>geometry = WallGeometry cartesians [0, 0]
           [or_number (ff_maxHeight fence) 100, or_number (ff_maxHeight fence) 100],
         modelMatrix = [],
         appearance_material =
           \<lparr>uniforms =
              [(''u_color'', UColor (withAlpha c 0.9)),
               (''u_speed'', UNumber (or_number (ff_speed fence) 1)),
               (''u_maxHeight'', UNumber (or_number (ff_maxHeight fence) 100)),
               (''u_time'', UNumber 0)],
            source = FlameSource\<rparr>,
         appearance_translucent = True, appearance_closed = False, asynchronous = False\<rparr> \<and>
      \<not> geometryThrows cs (geometry flame) \<and> \<not> materialThrows cs (appearance_material flame) \<and>
      \<not> primitiveThrows cs flame \<and> \<not> addThrows cs flame \<longrightarrow>
      fenceFlowEffect cs w fence =
        (Returned (PrimitiveGraphic flame),
         w\<lparr>getMap := Some (viewer\<lparr>primitives := primitives viewer @ [flame]\<rparr>),
           getGraphicMap := (getGraphicMap w)(ff_id fence \<mapsto> PrimitiveGraphic flame)\<rparr>))
   \<and> (ff_positions fence = Some [p, q] \<and> getMap w = Some viewer \<and> getGraphicMap w (ff_id fence) = None \<and>
      fromDegreesArrayHeights cs
        [element p 0, element p 1, Some (or_number (element p 2) 0),
         element q 0, element q 1, Some (or_number (element q 2) 0)] = Some cartesians \<and>
      fromCssColorString cs (or_string (ff_color fence) ''#00FFFF'') = Some c' \<and>
      flow =
        \<lparr>geometry = WallGeometry cartesians [0, 0] [100, 100],
         modelMatrix = [],
         appearance_material =
           \<lparr>uniforms =
              [(''u_color'', UColor (withAlpha c' 0.8)),
               (''u_speed'', UNumber (or_number (ff_speed fence) 1)),
               (''u_width'', UNumber (or_number (ff_width fence) 0.1))],
            source = FlowSource\<rparr>,
         appearance_translucent = True, appearance_closed = False, asynchronous = False\<rparr> \<and>
      \<not> geometryThrows cs (geometry flow) \<and> \<not> materialThrows cs (appearance_material flow) \<and>
      \<not> primitiveThrows cs flow \<and> \<not> addThrows cs flow \<longrightarrow>
      fenceFlowEffect_v2 cs w fence =
        (Returned (PrimitiveGraphic flow),
         w\<lparr>getMap := Some (viewer\<lparr>primitives := primitives viewer @ [flow]\<rparr>),
           getGraphicMap := (getGraphicMap w)(ff_id fence \<mapsto> PrimitiveGraphic flow)\<rparr>))"
proof (intro conjI impI)
  assume a: "ff_positions fence = Some [p]"
  from one_vertex(1) [OF a]
  show "\<exists>m. fenceFlowEffect cs w fence = (Null m, w) \<and> fenceFlowEffect_v2 cs w fence = (Null m, w)" .
  assume "getMap w \<noteq> None \<and> getGraphicMap w (ff_id fence) = None"
  then show "fenceFlowEffect cs w fence = (Null NeedTwoPoints, w)"
    and "fenceFlowEffect_v2 cs w fence = (Null NeedTwoPoints, w)"
    using one_vertex(2) [OF a, of w cs] by simp_all
next
  assume h: "ff_positions fence = Some [p, q] \<and> getMap w = Some viewer \<and> getGraphicMap w (ff_id fence) = None \<and>
      fromDegreesArrayHeights cs
        [element p 0, element p 1, Some (or_number (element p 2) 0),
         element q 0, element q 1, Some (or_number (element q 2) 0)] = Some cartesians \<and>
      fromCssColorString cs (or_string (ff_color fence) ''#FF6600'') = Some c \<and>
      flame =
        \<lparr>geometry = WallGeometry cartesians [0, 0]
           [or_number (ff_maxHeight fence) 100, or_number (ff_maxHeight fence) 100],
         modelMatrix = [],
         appearance_material =
           \<lparr>uniforms =
              [(''u_color'', UColor (withAlpha c 0.9)),
               (''u_speed'', UNumber (or_number (ff_speed fence) 1)),
               (''u_maxHeight'', UNumber (or_number (ff_maxHeight fence) 100)),
               (''u_time'', UNumber 0)],
            source = FlameSource\<rparr>,
         appearance_translucent = True, appearance_closed = False, asynchronous = False\<rparr> \<and>
      \<not> geometryThrows cs (geometry flame) \<and> \<not> materialThrows cs (appearance_material flame) \<and>
      \<not> primitiveThrows cs flame \<and> \<not> addThrows cs flame"
  show "fenceFlowEffect cs w fence =
        (Returned (PrimitiveGraphic flame),
         w\<lparr>getMap := Some (viewer\<lparr>primitives := primitives viewer @ [flame]\<rparr>),
           getGraphicMap := (getGraphicMap w)(ff_id fence \<mapsto> PrimitiveGraphic flame)\<rparr>)"
    by (rule two_vertices_flame [where p = p and q = q and cartesians = cartesians and c = c])
      (use h in auto)
next
  assume h: "ff_positions fence = Some [p, q] \<and> getMap w = Some viewer \<and> getGraphicMap w (ff_id fence) = None \<and>
      fromDegreesArrayHeights cs
        [element p 0, element p 1, Some (or_number (element p 2) 0),
         element q 0, element q 1, Some (or_number (element q 2) 0)] = Some cartesians \<and>
      fromCssColorString cs (or_string (ff_color fence) ''#00FFFF'') = Some c' \<and>
      flow =
        \<lparr>geometry = WallGeometry cartesians [0, 0] [100, 100],
         modelMatrix = [],
         appearance_material =
           \<lparr>uniforms =
              [(''u_color'', UColor (withAlpha c' 0.8)),
               (''u_speed'', UNumber (or_number (ff_speed fence) 1)),
               (''u_width'', UNumber (or_number (ff_width fence) 0.1))],
            source = FlowSource\<rparr>,
         appearance_translucent = True, appearance_closed = False, asynchronous = False\<rparr> \<and>
      \<not> geometryThrows cs (geometry flow) \<and> \<not> materialThrows cs (appearance_material flow) \<and>
      \<not> primitiveThrows cs flow \<and> \<not> addThrows cs flow"
  show "fenceFlowEffect_v2 cs w fence =
        (Returned (PrimitiveGraphic flow),
         w\<lparr>getMap := Some (viewer\<lparr>primitives := primitives viewer @ [flow]\<rparr>),
           getGraphicMap := (getGraphicMap w)(ff_id fence \<mapsto> PrimitiveGraphic flow)\<rparr>)"
    by (rule two_vertices_flow [where p = p and q = q and cartesians = cartesians and c = c'])
      (use h in auto)
qed

theorem C7_vertex_count_witness:
  "fenceFlowEffect wgs84 emptyWorld (fenceOptions [[0, 0, 0]] None None) = (Null NeedTwoPoints, emptyWorld)
   \<and> fenceFlowEffect_v2 wgs84 emptyWorld (fenceOptions [[0, 0, 0]] None None) = (Null NeedTwoPoints, emptyWorld)
   \<and> (let flame =
          \<lparr>geometry = WallGeometry [wgs84_fromDegrees 0 0 0, wgs84_fromDegrees 1 0 0] [0, 0] [100, 100],
           modelMatrix = [],
           appearance_material =
             \<lparr>uniforms = [(''u_color'', UColor (Color 1 (102 / 255) 0 0.9)), (''u_speed'', UNumber 1),
                          (''u_maxHeight'', UNumber 100), (''u_time'', UNumber 0)],
              source = FlameSource\<rparr>,
           appearance_translucent = True, appearance_closed = False, asynchronous = False\<rparr>
       in fenceFlowEffect wgs84 emptyWorld (fenceOptions [[0, 0, 0], [1, 0]] None None) =
           (Returned (PrimitiveGraphic flame),
            \<lparr>getMap = Some \<lparr>entities = [], primitives = [flame]\<rparr>,
             getGraphicMap = (\<lambda>i. None)(''fence'' \<mapsto> PrimitiveGraphic flame),
             radarPrimitiveType = False\<rparr>))
   \<and> (let flow =
          \<lparr>geometry = WallGeometry [wgs84_fromDegrees 0 0 0, wgs84_fromDegrees 1 0 0] [0, 0] [100, 100],
           modelMatrix = [],
           appearance_material =
             \<lparr>uniforms = [(''u_color'', UColor (Color 0 1 1 0.8)), (''u_speed'', UNumber 1),
                          (''u_width'', UNumber 0.1)],
              source = FlowSource\<rparr>,
           appearance_translucent = True, appearance_closed = False, asynchronous = False\<rparr>
       in fenceFlowEffect_v2 wgs84 emptyWorld (fenceOptions [[0, 0, 0], [1, 0]] None None) =
           (Returned (PrimitiveGraphic flow),
            \<lparr>getMap = Some \<lparr>entities = [], primitives = [flow]\<rparr>,
             getGraphicMap = (\<lambda>i. None)(''fence'' \<mapsto> PrimitiveGraphic flow),
             radarPrimitiveType = False\<rparr>))"
proof -
  have m: "getMap emptyWorld = Some emptyViewer" and free: "getGraphicMap emptyWorld ''fence'' = None"
    by (simp_all add: emptyWorld_def emptyViewer_def)
  have cart: "fromDegreesArrayHeights wgs84
      [element [0, 0, 0] 0, element [0, 0, 0] 1, Some (or_number (element [0, 0, 0] 2) 0),
       element [1, 0] 0, element [1, 0] 1, Some (or_number (element [1, 0] 2) 0)] =
      Some [wgs84_fromDegrees 0 0 0, wgs84_fromDegrees 1 0 0]"
    by (simp add: element_def or_number_def wgs84_fields)
  have one: "fenceFlowEffect wgs84 emptyWorld (fenceOptions [[0, 0, 0]] None None) = (Null NeedTwoPoints, emptyWorld)
      \<and> fenceFlowEffect_v2 wgs84 emptyWorld (fenceOptions [[0, 0, 0]] None None) = (Null NeedTwoPoints, emptyWorld)"
    using C7_vertex_count [where fence = "fenceOptions [[0, 0, 0]] None None" and p = "[0, 0, 0]"
        and cs = wgs84 and w = emptyWorld] m free
    by (simp add: fenceOptions_fields)
  have two: "fenceFlowEffect wgs84 emptyWorld (fenceOptions [[0, 0, 0], [1, 0]] None None) =
           (Returned (PrimitiveGraphic
              \<lparr>geometry = WallGeometry [wgs84_fromDegrees 0 0 0, wgs84_fromDegrees 1 0 0] [0, 0] [100, 100],
               modelMatrix = [],
               appearance_material =
                 \<lparr>uniforms = [(''u_color'', UColor (Color 1 (102 / 255) 0 0.9)), (''u_speed'', UNumber 1),
                              (''u_maxHeight'', UNumber 100), (''u_time'', UNumber 0)],
                  source = FlameSource\<rparr>,
               appearance_translucent = True, appearance_closed = False, asynchronous = False\<rparr>),
            emptyWorld\<lparr>getMap := Some (emptyViewer\<lparr>primitives := primitives emptyViewer @
              [\<lparr>geometry = WallGeometry [wgs84_fromDegrees 0 0 0, wgs84_fromDegrees 1 0 0] [0, 0] [100, 100],
               modelMatrix = [],
               appearance_material =
                 \<lparr>uniforms = [(''u_color'', UColor (Color 1 (102 / 255) 0 0.9)), (''u_speed'', UNumber 1),
                              (''u_maxHeight'', UNumber 100), (''u_time'', UNumber 0)],
                  source = FlameSource\<rparr>,
               appearance_translucent = True, appearance_closed = False, asynchronous = False\<rparr>]\<rparr>),
             getGraphicMap := (getGraphicMap emptyWorld)(''fence'' \<mapsto> PrimitiveGraphic
              \<lparr>geometry = WallGeometry [wgs84_fromDegrees 0 0 0, wgs84_fromDegrees 1 0 0] [0, 0] [100, 100],
               modelMatrix = [],
               appearance_material =
                 \<lparr>uniforms = [(''u_color'', UColor (Color 1 (102 / 255) 0 0.9)), (''u_speed'', UNumber 1),
                              (''u_maxHeight'', UNumber 100), (''u_time'', UNumber 0)],
                  source = FlameSource\<rparr>,
               appearance_translucent = True, appearance_closed = False, asynchronous = False\<rparr>)\<rparr>)
      \<and> fenceFlowEffect_v2 wgs84 emptyWorld (fenceOptions [[0, 0, 0], [1, 0]] None None) =
           (Returned (PrimitiveGraphic
              \<lparr>geometry = WallGeometry [wgs84_fromDegrees 0 0 0, wgs84_fromDegrees 1 0 0] [0, 0] [100, 100],
               modelMatrix = [],
               appearance_material =
                 \<lparr>uniforms = [(''u_color'', UColor (Color 0 1 1 0.8)), (''u_speed'', UNumber 1),
                              (''u_width'', UNumber 0.1)],
                  source = FlowSource\<rparr>,
               appearance_translucent = True, appearance_closed = False, asynchronous = False\<rparr>),
            emptyWorld\<lparr>getMap := Some (emptyViewer\<lparr>primitives := primitives emptyViewer @
              [\<lparr>geometry = WallGeometry [wgs84_fromDegrees 0 0 0, wgs84_fromDegrees 1 0 0] [0, 0] [100, 100],
               modelMatrix = [],
               appearance_material =
                 \<lparr>uniforms = [(''u_color'', UColor (Color 0 1 1 0.8)), (''u_speed'', UNumber 1),
                              (''u_width'', UNumber 0.1)],
                  source = FlowSource\<rparr>,
               appearance_translucent = True, appearance_closed = False, asynchronous = False\<rparr>]\<rparr>),
             getGraphicMap := (getGraphicMap emptyWorld)(''fence'' \<mapsto> PrimitiveGraphic
              \<lparr>geometry = WallGeometry [wgs84_fromDegrees 0 0 0, wgs84_fromDegrees 1 0 0] [0, 0] [100, 100],
               modelMatrix = [],
               appearance_material =
                 \<lparr>uniforms = [(''u_color'', UColor (Color 0 1 1 0.8)), (''u_speed'', UNumber 1),
                              (''u_width'', UNumber 0.1)],
                  source = FlowSource\<rparr>,
               appearance_translucent = True, appearance_closed = False, asynchronous = False\<rparr>)\<rparr>)"
    using C7_vertex_count [where fence = "fenceOptions [[0, 0, 0], [1, 0]] None None"
        and p = "[0, 0, 0]" and q = "[1, 0]" and cs = wgs84 and w = emptyWorld and viewer = emptyViewer
        and cartesians = "[wgs84_fromDegrees 0 0 0, wgs84_fromDegrees 1 0 0]"
        and c = "Color 1 (102 / 255) 0 1" and c' = "Color 0 1 1 1"
        and flame = "\<lparr>geometry = WallGeometry [wgs84_fromDegrees 0 0 0, wgs84_fromDegrees 1 0 0] [0, 0] [100, 100],
               modelMatrix = [],
               appearance_material =
                 \<lparr>uniforms = [(''u_color'', UColor (Color 1 (102 / 255) 0 0.9)), (''u_speed'', UNumber 1),
                              (''u_maxHeight'', UNumber 100), (''u_time'', UNumber 0)],
                  source = FlameSource\<rparr>,
               appearance_translucent = True, appearance_closed = False, asynchronous = False\<rparr>"
        and flow = "\<lparr>geometry = WallGeometry [wgs84_fromDegrees 0 0 0, wgs84_fromDegrees 1 0 0] [0, 0] [100, 100],
               modelMatrix = [],
               appearance_material =
                 \<lparr>uniforms = [(''u_color'', UColor (Color 0 1 1 0.8)), (''u_speed'', UNumber 1),
                              (''u_width'', UNumber 0.1)],
                  source = FlowSource\<rparr>,
               appearance_translucent = True, appearance_closed = False, asynchronous = False\<rparr>"]
      m free cart
    by (simp add: fenceOptions_fields wgs84_fields or_string_def or_number_def hex_colors withAlpha_def)
  show ?thesis
    using one two by (simp add: Let_def emptyWorld_def emptyViewer_def)
qed

section \<open>A cone of length zero\<close>

lemma subtract_zero_offset: "subtract (clone v) (multiplyByScalar d 0) = v"
  by (cases v) (simp add: subtract_def clone_def multiplyByScalar_def)

text \<open>
  C8, as amended. \<^verbatim>\<open>conicalWave\<close> does not check the length. With \<^verbatim>\<open>options.length = 0\<close>,
  when the map exists, the identifier is free and the library gives the anchor position, the
  axis direction and the colour, the call returns a cone entity of length 0 whose centre is
  the anchor position, adds it to the scene and stores it under the identifier.
\<close>

theorem C8_zero_length:
  assumes "cw_length wave = 0"
    and "getMap w = Some viewer" and "getGraphicMap w (cw_id wave) = None"
    and "anchorPosition cs (cw_positions wave) = Some P"
    and "axisDirection cs P (frameAngles (cw_heading wave) (cw_pitch wave)) = Some D"
    and "fromCssColorString cs (or_string (cw_color wave) ''#00FFFF'') = Some c"
  shows "\<exists>e. conicalWave cs now w wave =
           (Returned (EntityGraphic e),
            setGraphicMap (cw_id wave) (EntityGraphic e)
              ((registerRadarMaterial w)\<lparr>getMap := Some (viewer\<lparr>entities := entities viewer @ [e]\<rparr>)\<rparr>))
         \<and> entity_position e = P \<and> cylinder_length e = 0"
proof -
  have p: "conePose cs P (cw_heading wave) (cw_pitch wave) 0 =
      Some \<lparr>vertexPosition = P, worldDirection = D, cylinderCenter = P,
            orientation = headingPitchRollQuaternion cs P (frameAngles (cw_heading wave) (cw_pitch wave))\<rparr>"
    using assms(5)
    by (simp add: conePose_def axisDirection_def frameAngles_def subtract_zero_offset Let_def)
  show ?thesis
    using assms(1-4,6)
    by (simp add: conicalWave_def anchorPosition_def p radarEntity_def Let_def)
qed

theorem C8_zero_length_witness:
  "cw_length (waveOptions 0 0 None) = 0
   \<and> getMap emptyWorld = Some emptyViewer \<and> getGraphicMap emptyWorld (cw_id (waveOptions 0 0 None)) = None
   \<and> anchorPosition wgs84 (cw_positions (waveOptions 0 0 None)) = Some (Cartesian3 wgs84_a 0 0)
   \<and> axisDirection wgs84 (Cartesian3 wgs84_a 0 0) (frameAngles 0 0) = Some (Cartesian3 1 0 0)
   \<and> fromCssColorString wgs84 ''#00FFFF'' = Some (Color 0 1 1 1)
   \<and> (\<exists>e. conicalWave wgs84 0 emptyWorld (waveOptions 0 0 None) =
           (Returned (EntityGraphic e),
            setGraphicMap ''wave'' (EntityGraphic e)
              ((registerRadarMaterial emptyWorld)\<lparr>getMap := Some (emptyViewer\<lparr>entities := entities emptyViewer @ [e]\<rparr>)\<rparr>))
         \<and> entity_position e = Cartesian3 wgs84_a 0 0 \<and> cylinder_length e = 0)"
proof -
  have l: "cw_length (waveOptions 0 0 None) = 0"
    and m: "getMap emptyWorld = Some emptyViewer"
    and free: "getGraphicMap emptyWorld (cw_id (waveOptions 0 0 None)) = None"
    by (simp_all add: waveOptions_def emptyWorld_def emptyViewer_def)
  have P: "anchorPosition wgs84 (cw_positions (waveOptions 0 0 None)) = Some (Cartesian3 wgs84_a 0 0)"
    using anchorPosition_equator [of 0] by (simp add: waveOptions_def)
  have D: "axisDirection wgs84 (Cartesian3 wgs84_a 0 0)
      (frameAngles (cw_heading (waveOptions 0 0 None)) (cw_pitch (waveOptions 0 0 None))) = Some (Cartesian3 1 0 0)"
    using axisDirection_equator_level [OF wgs84_a_pos] by (simp add: waveOptions_def)
  have c: "fromCssColorString wgs84 (or_string (cw_color (waveOptions 0 0 None)) ''#00FFFF'') = Some (Color 0 1 1 1)"
    by (simp add: waveOptions_def or_string_def wgs84_fields hex_colors)
  show ?thesis
    using C8_zero_length [OF l m free P D c, of 0] l m free P D c
    by (simp add: waveOptions_def or_string_def)
qed

text \<open>As stated the claim fails: with \<^verbatim>\<open>length = 0\<close> on an empty registry \<^verbatim>\<open>conicalWave\<close>
  returns a cone entity of length 0 centred at the anchor.\<close>

theorem C8_zero_length_counterexample:
  "cw_length (waveOptions 0 0 None) = 0
   \<and> fst (conicalWave wgs84 0 emptyWorld (waveOptions 0 0 None)) =
       Returned (EntityGraphic (radarEntity
         \<lparr>vertexPosition = Cartesian3 wgs84_a 0 0, worldDirection = Cartesian3 1 0 0,
          cylinderCenter = Cartesian3 wgs84_a 0 0,
          orientation = Rotation (Cartesian3 0 1 0) (Cartesian3 0 0 1) (Cartesian3 1 0 0)\<rparr>
         0 50000 (newRadarPrimitiveMaterialProperty 0 (Some (Color 0 1 1 0.7)) 0.1) None))
   \<and> getGraphicMap (snd (conicalWave wgs84 0 emptyWorld (waveOptions 0 0 None))) ''wave'' =
       Some (EntityGraphic (radarEntity
         \<lparr>vertexPosition = Cartesian3 wgs84_a 0 0, worldDirection = Cartesian3 1 0 0,
          cylinderCenter = Cartesian3 wgs84_a 0 0,
          orientation = Rotation (Cartesian3 0 1 0) (Cartesian3 0 0 1) (Cartesian3 1 0 0)\<rparr>
         0 50000 (newRadarPrimitiveMaterialProperty 0 (Some (Color 0 1 1 0.7)) 0.1) None))"
proof -
  have r: "fst (conicalWave wgs84 0 emptyWorld (waveOptions 0 0 None)) =
       Returned (EntityGraphic (radarEntity
         \<lparr>vertexPosition = Cartesian3 wgs84_a 0 0, worldDirection = Cartesian3 1 0 0,
          cylinderCenter = Cartesian3 wgs84_a 0 0,
          orientation = Rotation (Cartesian3 0 1 0) (Cartesian3 0 0 1) (Cartesian3 1 0 0)\<rparr>
         0 50000 (newRadarPrimitiveMaterialProperty 0 (Some (Color 0 1 1 0.7)) 0.1) None))"
    using conicalWave_level [of 0 0 0] by simp
  then show ?thesis
    using conicalWave_outcome [of wgs84 0 emptyWorld "waveOptions 0 0 None"]
    by (auto simp: waveOptions_def setGraphicMap_def)
qed

section \<open>The height of the anchor\<close>












section \<open>Falsy options of a wall\<close>

lemma fenceFlowEffect_defaults:
  assumes "or_number (ff_maxHeight fence) 100 = or_number (ff_maxHeight fence') 100"
    and "or_number (ff_speed fence) 1 = or_number (ff_speed fence') 1"
    and "ff_id fence = ff_id fence'" and "ff_positions fence = ff_positions fence'"
    and "ff_color fence = ff_color fence'"
  shows "fenceFlowEffect cs w fence = fenceFlowEffect cs w fence'"
  using assms
  by (simp add: fenceFlowEffect_def flamePrimitive_def Let_def
      cong: option.case_cong if_cong)

lemma flamePrimitive_SomeD:
  assumes "flamePrimitive cs options ps maxHeight speed = Some primitive"
  shows "\<exists>cartesians c.
      geometry primitive =
        WallGeometry cartesians (replicate (length ps) 0) (replicate (length ps) maxHeight) \<and>
      uniforms (appearance_material primitive) =
        [(''u_color'', UColor (withAlpha c 0.9)), (''u_speed'', UNumber speed),
         (''u_maxHeight'', UNumber maxHeight), (''u_time'', UNumber 0)]"
  using assms
  by (auto simp: flamePrimitive_def coordinates_def Let_def split: option.splits if_splits)

text \<open>
  C10. The flame version of \<^verbatim>\<open>fenceFlowEffect\<close> replaces falsy option values by its defaults:
  the call with \<^verbatim>\<open>maxHeight = 0\<close> (or without \<^verbatim>\<open>maxHeight\<close>) is the call with
  \<^verbatim>\<open>maxHeight = 100\<close>, and the call with \<^verbatim>\<open>speed = 0\<close> is the call with \<^verbatim>\<open>speed = 1\<close>, in every
  state; a vertex whose third coordinate is missing or 0 gets the height 0. So a zero
  \<^verbatim>\<open>maxHeight\<close> is neither rejected nor a degenerate wall: a primitive returned for it has a
  wall from height 0 to height 100 at every vertex and the uniforms \<^verbatim>\<open>u_maxHeight = 100\<close>,
  \<^verbatim>\<open>u_speed = 1\<close> when the speed is 0 as well.
\<close>

theorem C10_falsy_options:
  "fenceFlowEffect cs w (fence\<lparr>ff_maxHeight := Some 0\<rparr>) = fenceFlowEffect cs w (fence\<lparr>ff_maxHeight := Some 100\<rparr>)
   \<and> fenceFlowEffect cs w (fence\<lparr>ff_maxHeight := None\<rparr>) = fenceFlowEffect cs w (fence\<lparr>ff_maxHeight := Some 100\<rparr>)
   \<and> fenceFlowEffect cs w (fence\<lparr>ff_speed := Some 0\<rparr>) = fenceFlowEffect cs w (fence\<lparr>ff_speed := Some 1\<rparr>)
   \<and> coordinates [[lng, lat]] = [[Some lng, Some lat, Some 0]]
   \<and> coordinates [[lng, lat, 0]] = [[Some lng, Some lat, Some 0]]
   \<and> (ff_maxHeight fence = Some 0 \<and> ff_speed fence = Some 0 \<and>
      fenceFlowEffect cs w fence = (Returned (PrimitiveGraphic primitive), w') \<longrightarrow>
      (\<exists>cartesians n. geometry primitive = WallGeometry cartesians (replicate n 0) (replicate n 100))
      \<and> map_of (uniforms (appearance_material primitive)) ''u_maxHeight'' = Some (UNumber 100)
      \<and> map_of (uniforms (appearance_material primitive)) ''u_speed'' = Some (UNumber 1))"
proof (intro conjI impI)
  show "fenceFlowEffect cs w (fence\<lparr>ff_maxHeight := Some 0\<rparr>) = fenceFlowEffect cs w (fence\<lparr>ff_maxHeight := Some 100\<rparr>)"
    by (rule fenceFlowEffect_defaults) (simp_all add: or_number_def)
  show "fenceFlowEffect cs w (fence\<lparr>ff_maxHeight := None\<rparr>) = fenceFlowEffect cs w (fence\<lparr>ff_maxHeight := Some 100\<rparr>)"
    by (rule fenceFlowEffect_defaults) (simp_all add: or_number_def)
  show "fenceFlowEffect cs w (fence\<lparr>ff_speed := Some 0\<rparr>) = fenceFlowEffect cs w (fence\<lparr>ff_speed := Some 1\<rparr>)"
    by (rule fenceFlowEffect_defaults) (simp_all add: or_number_def)
  show "coordinates [[lng, lat]] = [[Some lng, Some lat, Some 0]]"
    and "coordinates [[lng, lat, 0]] = [[Some lng, Some lat, Some 0]]"
    by (simp_all add: coordinates_def element_def or_number_def)
next
  assume a: "ff_maxHeight fence = Some 0 \<and> ff_speed fence = Some 0 \<and>
      fenceFlowEffect cs w fence = (Returned (PrimitiveGraphic primitive), w')"
  then obtain ps where "flamePrimitive cs fence ps 100 1 = Some primitive"
    using fenceFlowEffect_outcome [of cs w fence] by (auto simp: or_number_def)
  from flamePrimitive_SomeD [OF this]
  show "\<exists>cartesians n. geometry primitive = WallGeometry cartesians (replicate n 0) (replicate n 100)"
    and "map_of (uniforms (appearance_material primitive)) ''u_maxHeight'' = Some (UNumber 100)"
    and "map_of (uniforms (appearance_material primitive)) ''u_speed'' = Some (UNumber 1)"
    by auto
qed

theorem C10_falsy_options_witness:
  "ff_maxHeight (fenceOptions [[0, 0, 0], [1, 0]] (Some 0) (Some 0)) = Some 0
   \<and> ff_speed (fenceOptions [[0, 0, 0], [1, 0]] (Some 0) (Some 0)) = Some 0
   \<and> (\<exists>primitive w'.
        fenceFlowEffect wgs84 emptyWorld (fenceOptions [[0, 0, 0], [1, 0]] (Some 0) (Some 0))
          = (Returned (PrimitiveGraphic primitive), w')
        \<and> geometry primitive =
            WallGeometry [wgs84_fromDegrees 0 0 0, wgs84_fromDegrees 1 0 0] [0, 0] [100, 100]
        \<and> map_of (uniforms (appearance_material primitive)) ''u_maxHeight'' = Some (UNumber 100)
        \<and> map_of (uniforms (appearance_material primitive)) ''u_speed'' = Some (UNumber 1))"
proof -
  let ?F = "fenceOptions [[0, 0, 0], [1, 0]] (Some 0) (Some 0)"
  obtain p where p: "flamePrimitive wgs84 ?F [[0, 0, 0], [1, 0]] (or_number (Some 0) 100) (or_number (Some 0) 1) = Some p"
    and r: "fenceFlowEffect wgs84 emptyWorld ?F =
      (Returned (PrimitiveGraphic p), addPrimitive ''fence'' p emptyViewer emptyWorld)"
    using fenceFlowEffect_sample [of "Some 0" "Some 0"] by blast
  have g: "geometry p = WallGeometry [wgs84_fromDegrees 0 0 0, wgs84_fromDegrees 1 0 0] [0, 0] [100, 100]"
    using p by (auto simp: flamePrimitive_sample or_number_def)
  have "map_of (uniforms (appearance_material p)) ''u_maxHeight'' = Some (UNumber 100)
      \<and> map_of (uniforms (appearance_material p)) ''u_speed'' = Some (UNumber 1)"
    using C10_falsy_options [where fence = ?F and cs = wgs84 and w = emptyWorld and primitive = p
        and w' = "addPrimitive ''fence'' p emptyViewer emptyWorld"] r
    by (simp add: fenceOptions_fields)
  then show ?thesis
    using r g by (auto simp: fenceOptions_fields)
qed

end
